theory Spec2Isabelle
  imports Complex_Main "HOL-Library.Word" "HOL-Library.AList"
begin

section \<open>Outcomes of running a piece of the client\<close>

text \<open>
  A Go function of the direct client either returns, or panics (an index out of range, a
  nil pointer dereference), or blocks for ever on a channel on which nobody sends any more
  and which nobody closes.
\<close>

datatype panic = IndexOutOfRange | NilPointerDereference

datatype 'a result = Returns 'a | BlocksForever | Panics panic

section \<open>Data model\<close>

text \<open>
  Modelled from the spec: the type \<^verbatim>\<open>ring.Device\<close> is declared outside the files at
  hand; the specification gives it as \<^verbatim>\<open>{ip: string, port: uint16, device: string}\<close>.
\<close>

record Device =
  Ip :: string
  Port :: "16 word"
  Device :: string

text \<open>
  Modelled from the spec: the interface \<^verbatim>\<open>ring.Ring\<close> is declared outside the files at
  hand; the client uses its two methods \<^verbatim>\<open>GetPartition(account, container, object)
  uint64\<close> and \<^verbatim>\<open>GetNodes(partition)\<close>, both pure for a ring snapshot.
\<close>

record Ring =
  GetPartition :: "string \<Rightarrow> string \<Rightarrow> string \<Rightarrow> 64 word"
  GetNodes :: "64 word \<Rightarrow> Device list"

record ProxyDirectClient =
  AccountRing :: Ring
  ContainerRing :: Ring
  ObjectRing :: Ring

text \<open>
  \<^verbatim>\<open>http.Header\<close> is \<^verbatim>\<open>map[string][]string\<close>: here an association list, whose order
  stands for the order in which \<^verbatim>\<open>range\<close> happens to visit the keys.
\<close>

type_synonym Header = "(string \<times> string list) list"

text \<open>
  The fields of \<^verbatim>\<open>http.Request\<close> that the client sets. A body is the read end of a
  pipe, named by the index of the loop iteration that created the pipe.
\<close>

record Request =
  Method :: string
  URL :: string
  Header :: Header
  Body :: "nat option"

text \<open>The fields of \<^verbatim>\<open>http.Response\<close> that the client reads.\<close>

record Response =
  StatusCode :: int
  Header :: Header
  Body :: string

text \<open>
  Functions of the Go standard library and of the package \<^verbatim>\<open>common\<close> that the client
  calls and that are not part of the files at hand; they are parameters of the model.
  \<^verbatim>\<open>url_Parse\<close> tells whether \<^verbatim>\<open>http.NewRequest\<close> can parse the URL, which is the
  only way it fails for the methods used here.
\<close>

record Lib =
  CanonicalMIMEHeaderKey :: "string \<Rightarrow> string"
  url_Parse :: "string \<Rightarrow> bool"
  Urlencode :: "string \<Rightarrow> string"
  QueryEscape :: "string \<Rightarrow> string"
  Map2Headers :: "(string \<times> string) list \<Rightarrow> Header"
  Headers2Map :: "Header \<Rightarrow> (string \<times> string) list"

section \<open>Helpers of the standard library\<close>

text \<open>Go's integer division truncates towards zero.\<close>

definition go_div :: "int \<Rightarrow> int \<Rightarrow> int" where
  "go_div a b = sgn a * sgn b * (\<bar>a\<bar> div \<bar>b\<bar>)"

text \<open>\<^verbatim>\<open>strconv.FormatUint(n, 10)\<close>, and the verb \<^verbatim>\<open>%d\<close> on an unsigned number.\<close>

fun FormatUint :: "nat \<Rightarrow> string" where
  "FormatUint n =
     (if n < 10 then [''0123456789'' ! n]
      else FormatUint (n div 10) @ [''0123456789'' ! (n mod 10)])"

declare FormatUint.simps [simp del]

text \<open>
  \<^verbatim>\<open>http.NewRequest(method, url, body)\<close>: a request with an empty header, or an error
  (here \<open>None\<close>, the request returned with the error being nil).
\<close>

definition NewRequest :: "Lib \<Rightarrow> string \<Rightarrow> string \<Rightarrow> nat option \<Rightarrow> Request option" where
  "NewRequest lib method url body =
     (if url_Parse lib url
      then Some \<lparr>Method = method, URL = url, Header = [], Body = body\<rparr>
      else None)"

text \<open>
  \<^verbatim>\<open>headers.Get(key)\<close>: the first value stored under the canonical form of the key, or
  the empty string.
\<close>

definition Header_Get :: "Lib \<Rightarrow> Header \<Rightarrow> string \<Rightarrow> string" where
  "Header_Get lib h key =
     (case map_of h (CanonicalMIMEHeaderKey lib key) of
        None \<Rightarrow> []
      | Some [] \<Rightarrow> []
      | Some (v # vs) \<Rightarrow> v)"

text \<open>
  \<^verbatim>\<open>req.Header.Set(key, value)\<close>: the canonical form of the key gets the single value.
\<close>

definition Header_Set :: "Lib \<Rightarrow> string \<Rightarrow> string \<Rightarrow> Request \<Rightarrow> Request" where
  "Header_Set lib key val req =
     req\<lparr>Request.Header :=
           AList.update (CanonicalMIMEHeaderKey lib key) [val] (Request.Header req)\<rparr>"

section \<open>The direct client: building the sub-requests\<close>

text \<open>
  The loop that every operation runs on its request:
  \<^verbatim>\<open>for key := range headers { req.Header.Set(key, headers.Get(key)) }\<close>.
\<close>

definition copy_headers :: "Lib \<Rightarrow> Header \<Rightarrow> Request \<Rightarrow> Request" where
  "copy_headers lib headers req =
     fold (\<lambda>key. Header_Set lib key (Header_Get lib headers key)) (map fst headers) req"

text \<open>
  \<^verbatim>\<open>mkquery(options)\<close>; \<^verbatim>\<open>strings.TrimRight(query, "&")\<close> drops every trailing
  ampersand.
\<close>

definition mkquery :: "Lib \<Rightarrow> (string \<times> string) list \<Rightarrow> string" where
  "mkquery lib options =
     (let query = fold (\<lambda>(k, v) query.
                     if v \<noteq> '''' then query @ QueryEscape lib k @ ''='' @ QueryEscape lib v @ ''&''
                     else query) options ''''
      in if query \<noteq> '''' then ''?'' @ rev (dropWhile (\<lambda>c. c = CHR ''&'') (rev query))
         else '''')"

text \<open>
  The loop \<^verbatim>\<open>for i, device := range nodes { ... reqs = append(reqs, req) }\<close>. The body
  gives \<open>Inr (Some x)\<close> when it appends \<open>x\<close>, \<open>Inr None\<close> when it leaves the iteration
  with \<^verbatim>\<open>continue\<close>, and \<open>Inl p\<close> when it panics, which ends the loop.
\<close>

fun for_range :: "(nat \<times> Device \<Rightarrow> panic + 'a option) \<Rightarrow> (nat \<times> Device) list \<Rightarrow> panic + 'a list" where
  "for_range body [] = Inr []"
| "for_range body (p # ps) =
     (case body p of
        Inl e \<Rightarrow> Inl e
      | Inr None \<Rightarrow> for_range body ps
      | Inr (Some x) \<Rightarrow>
          (case for_range body ps of Inl e \<Rightarrow> Inl e | Inr xs \<Rightarrow> Inr (x # xs)))"

text \<open>
  The beginning \<^verbatim>\<open>"http://%s:%d/%s/%d"\<close> of every URL format: ip, port, device and
  partition.
\<close>

definition node_url :: "Device \<Rightarrow> 64 word \<Rightarrow> string" where
  "node_url device part =
     ''http://'' @ Ip device @ '':'' @ FormatUint (unat (Port device)) @ ''/'' @ Device device
       @ ''/'' @ FormatUint (unat part)"

text \<open>
  The URL formats of the three tiers: \<^verbatim>\<open>"http://%s:%d/%s/%d/%s"\<close>,
  \<^verbatim>\<open>"http://%s:%d/%s/%d/%s/%s"\<close> and \<^verbatim>\<open>"http://%s:%d/%s/%d/%s/%s/%s"\<close>, with every
  name passed through \<^verbatim>\<open>common.Urlencode\<close>.
\<close>

definition account_url :: "Lib \<Rightarrow> Device \<Rightarrow> 64 word \<Rightarrow> string \<Rightarrow> string" where
  "account_url lib device part account = node_url device part @ ''/'' @ Urlencode lib account"

definition container_url :: "Lib \<Rightarrow> Device \<Rightarrow> 64 word \<Rightarrow> string \<Rightarrow> string \<Rightarrow> string" where
  "container_url lib device part account container =
     node_url device part @ ''/'' @ Urlencode lib account @ ''/'' @ Urlencode lib container"

definition object_url :: "Lib \<Rightarrow> Device \<Rightarrow> 64 word \<Rightarrow> string \<Rightarrow> string \<Rightarrow> string \<Rightarrow> string" where
  "object_url lib device part account container obj =
     node_url device part @ ''/'' @ Urlencode lib account @ ''/'' @ Urlencode lib container
       @ ''/'' @ Urlencode lib obj"

text \<open>
  \<^verbatim>\<open>req, _ := http.NewRequest(...)\<close> in an operation that goes on to set a header of
  its own: the error is dropped, after a failure \<^verbatim>\<open>req\<close> is nil, and the loop body
  dereferences it, at the latest in its first own \<^verbatim>\<open>req.Header.Set\<close>.
\<close>

definition err_ignored :: "Request option \<Rightarrow> (Request \<Rightarrow> panic + Request option) \<Rightarrow> panic + Request option" where
  "err_ignored r k = (case r of None \<Rightarrow> Inl NilPointerDereference | Some req \<Rightarrow> k req)"

text \<open>
  \<^verbatim>\<open>req, _ := http.NewRequest(...)\<close> in an operation whose loop body only copies the
  caller's headers and appends \<^verbatim>\<open>req\<close>. After a failure \<^verbatim>\<open>req\<close> is nil: the first
  \<^verbatim>\<open>req.Header.Set\<close> of the copying loop dereferences it, and when the caller gave no
  header the loop does not run and the nil request is appended to \<^verbatim>\<open>reqs\<close> (here
  \<open>None\<close> in the list).
\<close>

definition err_ignored_copy :: "Lib \<Rightarrow> Header \<Rightarrow> Request option \<Rightarrow> panic + Request option option" where
  "err_ignored_copy lib headers r =
     (case r of
        Some req \<Rightarrow> Inr (Some (Some (copy_headers lib headers req)))
      | None \<Rightarrow> if headers = [] then Inr (Some None) else Inl NilPointerDereference)"

text \<open>
  \<^verbatim>\<open>req, err := http.NewRequest(...); if err != nil { continue }\<close>.
\<close>

definition err_continue :: "Request option \<Rightarrow> (Request \<Rightarrow> panic + 'a option) \<Rightarrow> panic + 'a option" where
  "err_continue r k = (case r of None \<Rightarrow> Inr None | Some req \<Rightarrow> k req)"

text \<open>
  The three placement headers of a child-tier write, with \<open>parent\<close> being \<open>Account\<close> or
  \<open>Container\<close>:
  \<^verbatim>\<open>req.Header.Set("X-Account-Partition", strconv.FormatUint(accountPartition, 10))\<close>,
  \<^verbatim>\<open>req.Header.Set("X-Account-Host", fmt.Sprintf("%s:%d", accountDevices[i].Ip,
  accountDevices[i].Port))\<close>,
  \<^verbatim>\<open>req.Header.Set("X-Account-Device", accountDevices[i].Device)\<close>.
  The index \<open>i\<close> is not compared with the length of the parent's device list.
\<close>

definition set_placement ::
  "Lib \<Rightarrow> string \<Rightarrow> 64 word \<Rightarrow> Device list \<Rightarrow> nat \<Rightarrow> Request \<Rightarrow> panic + Request" where
  "set_placement lib parent parentPartition parentDevices i req =
     (let req = Header_Set lib (''X-'' @ parent @ ''-Partition'')
                  (FormatUint (unat parentPartition)) req
      in if i < length parentDevices then
           let req = Header_Set lib (''X-'' @ parent @ ''-Host'')
                       (Ip (parentDevices ! i) @ '':''
                          @ FormatUint (unat (Port (parentDevices ! i)))) req
           in Inr (Header_Set lib (''X-'' @ parent @ ''-Device'') (Device (parentDevices ! i)) req)
         else Inl IndexOutOfRange)"

subsection \<open>Account tier\<close>

definition PutAccount_reqs :: "Lib \<Rightarrow> ProxyDirectClient \<Rightarrow> string \<Rightarrow> Header \<Rightarrow> panic + Request option list" where
  "PutAccount_reqs lib c account headers =
     (let part = GetPartition (AccountRing c) account '''' ''''
      in for_range (\<lambda>(i, device).
           let url = account_url lib device part account
           in err_ignored_copy lib headers (NewRequest lib ''PUT'' url None))
         (enumerate 0 (GetNodes (AccountRing c) part)))"

definition PostAccount_reqs :: "Lib \<Rightarrow> ProxyDirectClient \<Rightarrow> string \<Rightarrow> Header \<Rightarrow> panic + Request option list" where
  "PostAccount_reqs lib c account headers =
     (let part = GetPartition (AccountRing c) account '''' ''''
      in for_range (\<lambda>(i, device).
           let url = account_url lib device part account
           in err_ignored_copy lib headers (NewRequest lib ''POST'' url None))
         (enumerate 0 (GetNodes (AccountRing c) part)))"

definition GetAccount_reqs ::
  "Lib \<Rightarrow> ProxyDirectClient \<Rightarrow> string \<Rightarrow> (string \<times> string) list \<Rightarrow> Header \<Rightarrow> panic + Request option list" where
  "GetAccount_reqs lib c account options headers =
     (let part = GetPartition (AccountRing c) account '''' '''';
          query = mkquery lib options
      in for_range (\<lambda>(i, device).
           let url = account_url lib device part account @ query
           in err_ignored_copy lib headers (NewRequest lib ''GET'' url None))
         (enumerate 0 (GetNodes (AccountRing c) part)))"

definition HeadAccount_reqs :: "Lib \<Rightarrow> ProxyDirectClient \<Rightarrow> string \<Rightarrow> Header \<Rightarrow> panic + Request list" where
  "HeadAccount_reqs lib c account headers =
     (let part = GetPartition (AccountRing c) account '''' ''''
      in for_range (\<lambda>(i, device).
           let url = account_url lib device part account
           in err_continue (NewRequest lib ''HEAD'' url None)
                (\<lambda>req. Inr (Some (copy_headers lib headers req))))
         (enumerate 0 (GetNodes (AccountRing c) part)))"

definition DeleteAccount_reqs :: "Lib \<Rightarrow> ProxyDirectClient \<Rightarrow> string \<Rightarrow> Header \<Rightarrow> panic + Request option list" where
  "DeleteAccount_reqs lib c account headers =
     (let part = GetPartition (AccountRing c) account '''' ''''
      in for_range (\<lambda>(i, device).
           let url = account_url lib device part account
           in err_ignored_copy lib headers (NewRequest lib ''DELETE'' url None))
         (enumerate 0 (GetNodes (AccountRing c) part)))"

subsection \<open>Container tier\<close>

definition PutContainer_reqs ::
  "Lib \<Rightarrow> ProxyDirectClient \<Rightarrow> string \<Rightarrow> string \<Rightarrow> Header \<Rightarrow> panic + Request list" where
  "PutContainer_reqs lib c account container headers =
     (let part = GetPartition (ContainerRing c) account container '''';
          accountPartition = GetPartition (AccountRing c) account '''' '''';
          accountDevices = GetNodes (AccountRing c) accountPartition
      in for_range (\<lambda>(i, device).
           let url = container_url lib device part account container
           in err_ignored (NewRequest lib ''PUT'' url None)
                (\<lambda>req. case set_placement lib ''Account'' accountPartition accountDevices i
                                (copy_headers lib headers req) of
                          Inl p \<Rightarrow> Inl p
                        | Inr req \<Rightarrow> Inr (Some req)))
         (enumerate 0 (GetNodes (ContainerRing c) part)))"

definition PostContainer_reqs ::
  "Lib \<Rightarrow> ProxyDirectClient \<Rightarrow> string \<Rightarrow> string \<Rightarrow> Header \<Rightarrow> panic + Request option list" where
  "PostContainer_reqs lib c account container headers =
     (let part = GetPartition (ContainerRing c) account container ''''
      in for_range (\<lambda>(i, device).
           let url = container_url lib device part account container
           in err_ignored_copy lib headers (NewRequest lib ''POST'' url None))
         (enumerate 0 (GetNodes (ContainerRing c) part)))"

definition GetContainer_reqs ::
  "Lib \<Rightarrow> ProxyDirectClient \<Rightarrow> string \<Rightarrow> string \<Rightarrow> (string \<times> string) list \<Rightarrow> Header
     \<Rightarrow> panic + Request option list" where
  "GetContainer_reqs lib c account container options headers =
     (let part = GetPartition (ContainerRing c) account container '''';
          query = mkquery lib options
      in for_range (\<lambda>(i, device).
           let url = container_url lib device part account container @ query
           in err_ignored_copy lib headers (NewRequest lib ''GET'' url None))
         (enumerate 0 (GetNodes (ContainerRing c) part)))"

definition HeadContainer_reqs ::
  "Lib \<Rightarrow> ProxyDirectClient \<Rightarrow> string \<Rightarrow> string \<Rightarrow> Header \<Rightarrow> panic + Request list" where
  "HeadContainer_reqs lib c account container headers =
     (let part = GetPartition (ContainerRing c) account container ''''
      in for_range (\<lambda>(i, device).
           let url = container_url lib device part account container
           in err_continue (NewRequest lib ''HEAD'' url None)
                (\<lambda>req. Inr (Some (copy_headers lib headers req))))
         (enumerate 0 (GetNodes (ContainerRing c) part)))"

definition DeleteContainer_reqs ::
  "Lib \<Rightarrow> ProxyDirectClient \<Rightarrow> string \<Rightarrow> string \<Rightarrow> Header \<Rightarrow> panic + Request list" where
  "DeleteContainer_reqs lib c account container headers =
     (let part = GetPartition (ContainerRing c) account container '''';
          accountPartition = GetPartition (AccountRing c) account '''' '''';
          accountDevices = GetNodes (AccountRing c) accountPartition
      in for_range (\<lambda>(i, device).
           let url = container_url lib device part account container
           in err_ignored (NewRequest lib ''DELETE'' url None)
                (\<lambda>req. case set_placement lib ''Account'' accountPartition accountDevices i
                                (copy_headers lib headers req) of
                          Inl p \<Rightarrow> Inl p
                        | Inr req \<Rightarrow> Inr (Some req)))
         (enumerate 0 (GetNodes (ContainerRing c) part)))"

subsection \<open>Object tier\<close>

text \<open>
  The loop of \<^verbatim>\<open>PutObject\<close>. Iteration \<open>i\<close> creates pipe \<open>i\<close> (\<^verbatim>\<open>rp, wp := io.Pipe()\<close>)
  and defers the closing of both ends; the request reads from \<^verbatim>\<open>rp\<close>. When the request
  cannot be built the iteration is left with \<^verbatim>\<open>continue\<close>; otherwise \<^verbatim>\<open>wp\<close> is appended
  to \<^verbatim>\<open>writers\<close> and the request to \<^verbatim>\<open>reqs\<close>. The result pairs each request with the
  pipe whose write end was appended with it.
\<close>

definition PutObject_reqs ::
  "Lib \<Rightarrow> ProxyDirectClient \<Rightarrow> string \<Rightarrow> string \<Rightarrow> string \<Rightarrow> Header
     \<Rightarrow> panic + (nat \<times> Request) list" where
  "PutObject_reqs lib c account container obj headers =
     (let part = GetPartition (ObjectRing c) account container obj;
          containerPartition = GetPartition (ContainerRing c) account container '''';
          containerDevices = GetNodes (ContainerRing c) containerPartition
      in for_range (\<lambda>(i, device).
           let url = object_url lib device part account container obj
           in err_continue (NewRequest lib ''PUT'' url (Some i))
                (\<lambda>req. case set_placement lib ''Container'' containerPartition containerDevices i
                                (Header_Set lib ''Content-Type'' ''application/octet-stream''
                                   (copy_headers lib headers req)) of
                          Inl p \<Rightarrow> Inl p
                        | Inr req \<Rightarrow> Inr (Some (i, Header_Set lib ''Expect'' ''100-Continue'' req))))
         (enumerate 0 (GetNodes (ObjectRing c) part)))"

definition PostObject_reqs ::
  "Lib \<Rightarrow> ProxyDirectClient \<Rightarrow> string \<Rightarrow> string \<Rightarrow> string \<Rightarrow> Header \<Rightarrow> panic + Request list" where
  "PostObject_reqs lib c account container obj headers =
     (let part = GetPartition (ObjectRing c) account container obj;
          containerPartition = GetPartition (ContainerRing c) account container '''';
          containerDevices = GetNodes (ContainerRing c) containerPartition
      in for_range (\<lambda>(i, device).
           let url = object_url lib device part account container obj
           in err_ignored (NewRequest lib ''POST'' url None)
                (\<lambda>req. case set_placement lib ''Container'' containerPartition containerDevices i
                                (Header_Set lib ''Content-Type'' ''application/octet-stream''
                                   (copy_headers lib headers req)) of
                          Inl p \<Rightarrow> Inl p
                        | Inr req \<Rightarrow> Inr (Some req)))
         (enumerate 0 (GetNodes (ObjectRing c) part)))"

definition GetObject_reqs ::
  "Lib \<Rightarrow> ProxyDirectClient \<Rightarrow> string \<Rightarrow> string \<Rightarrow> string \<Rightarrow> Header \<Rightarrow> panic + Request list" where
  "GetObject_reqs lib c account container obj headers =
     (let part = GetPartition (ObjectRing c) account container obj;
          nodes = GetNodes (ObjectRing c) part
      in for_range (\<lambda>(i, device).
           let url = object_url lib device part account container obj
           in err_continue (NewRequest lib ''GET'' url None)
                (\<lambda>req. Inr (Some (copy_headers lib headers req))))
         (enumerate 0 nodes))"

definition GrepObject_reqs ::
  "Lib \<Rightarrow> ProxyDirectClient \<Rightarrow> string \<Rightarrow> string \<Rightarrow> string \<Rightarrow> string \<Rightarrow> panic + Request list" where
  "GrepObject_reqs lib c account container obj search =
     (let part = GetPartition (ObjectRing c) account container obj;
          nodes = GetNodes (ObjectRing c) part
      in for_range (\<lambda>(i, device).
           let url = object_url lib device part account container obj
                       @ ''?e='' @ Urlencode lib search
           in err_continue (NewRequest lib ''GREP'' url None) (\<lambda>req. Inr (Some req)))
         (enumerate 0 nodes))"

definition HeadObject_reqs ::
  "Lib \<Rightarrow> ProxyDirectClient \<Rightarrow> string \<Rightarrow> string \<Rightarrow> string \<Rightarrow> Header \<Rightarrow> panic + Request list" where
  "HeadObject_reqs lib c account container obj headers =
     (let part = GetPartition (ObjectRing c) account container obj;
          nodes = GetNodes (ObjectRing c) part
      in for_range (\<lambda>(i, device).
           let url = object_url lib device part account container obj
           in err_continue (NewRequest lib ''HEAD'' url None)
                (\<lambda>req. Inr (Some (copy_headers lib headers req))))
         (enumerate 0 nodes))"

definition DeleteObject_reqs ::
  "Lib \<Rightarrow> ProxyDirectClient \<Rightarrow> string \<Rightarrow> string \<Rightarrow> string \<Rightarrow> Header \<Rightarrow> panic + Request list" where
  "DeleteObject_reqs lib c account container obj headers =
     (let part = GetPartition (ObjectRing c) account container obj;
          containerPartition = GetPartition (ContainerRing c) account container '''';
          containerDevices = GetNodes (ContainerRing c) containerPartition
      in for_range (\<lambda>(i, device).
           let url = object_url lib device part account container obj
           in err_ignored (NewRequest lib ''DELETE'' url None)
                (\<lambda>req. case set_placement lib ''Container'' containerPartition containerDevices i
                                (Header_Set lib ''Content-Type'' ''application/octet-stream''
                                   (copy_headers lib headers req)) of
                          Inl p \<Rightarrow> Inl p
                        | Inr req \<Rightarrow> Inr (Some req)))
         (enumerate 0 (GetNodes (ObjectRing c) part)))"

section \<open>The quorum dispatcher\<close>

text \<open>
  The goroutine body: \<^verbatim>\<open>status := 500; if resp, err := c.client.Do(req); err == nil
  { status = resp.StatusCode }\<close>. What \<^verbatim>\<open>c.client.Do\<close> gives is a response, or \<open>None\<close>
  for an error.
\<close>

fun goroutine_status :: "Response option \<Rightarrow> int" where
  "goroutine_status None = 500"
| "goroutine_status (Some resp) = StatusCode resp"

text \<open>
  \<^verbatim>\<open>quorum := int(math.Ceil(float64(len(reqs)) / 2.0))\<close>. The float64 arithmetic is exact
  for every length below \<open>2^53\<close>, so it is the ceiling of the real quotient.
\<close>

definition quorum_of :: "nat \<Rightarrow> int" where
  "quorum_of n = \<lceil>real n / 2\<rceil>"

text \<open>
  The loop \<^verbatim>\<open>for status := range statusCodes\<close>. Its third argument is the sequence of
  statuses that the goroutines manage to send, in the order in which the loop receives
  them. The channel \<^verbatim>\<open>statusCodes\<close> is unbuffered and is closed nowhere, so when
  every goroutine has delivered its status the receive blocks for ever: the statement
  \<^verbatim>\<open>return 503\<close> after the loop is never reached.
  \<^verbatim>\<open>responseClasses\<close> has six entries; an index below zero panics.
\<close>

fun quorum_loop :: "int \<Rightarrow> int list \<Rightarrow> int list \<Rightarrow> int result" where
  "quorum_loop quorum responseClasses [] = BlocksForever"
| "quorum_loop quorum responseClasses (status # statusCodes) =
     (let class = go_div status 100 in
      if class \<le> 5 then
        if class < 0 then Panics IndexOutOfRange
        else
          let responseClasses' =
                responseClasses[nat class := responseClasses ! nat class + 1]
          in if responseClasses' ! nat class \<ge> quorum then Returns status
             else quorum_loop quorum responseClasses' statusCodes
      else quorum_loop quorum responseClasses statusCodes)"

text \<open>
  \<^verbatim>\<open>quorumResponse(reqs...)\<close>. The second argument lists what \<^verbatim>\<open>c.client.Do\<close> gave
  the goroutines, in the order in which their sends reach the loop; each goroutine sends
  once, so there are \<^verbatim>\<open>len(reqs)\<close> of them.
\<close>

definition quorumResponse :: "'req list \<Rightarrow> Response option list \<Rightarrow> int result" where
  "quorumResponse reqs arrivals =
     quorum_loop (quorum_of (length reqs)) [0, 0, 0, 0, 0, 0] (map goroutine_status arrivals)"

section \<open>The first-response dispatcher\<close>

text \<open>
  What the \<^verbatim>\<open>select\<close> of one iteration of \<^verbatim>\<open>firstResponse\<close> observes: the value that
  the goroutine of the \<open>j\<close>-th request sends on \<^verbatim>\<open>success\<close>, or the expiry of
  \<^verbatim>\<open>time.After(time.Second)\<close>.
\<close>

datatype select_event = Received nat | TimedOut

text \<open>
  The loop of \<^verbatim>\<open>firstResponse\<close>: iteration \<open>k\<close> starts the goroutine of request \<open>k\<close> and
  runs one \<^verbatim>\<open>select\<close>. \<open>Do j\<close> is what \<^verbatim>\<open>c.client.Do\<close> gives the goroutine of request
  \<open>j\<close> (\<open>None\<close> for an error, which the goroutine sends as a nil response), and \<open>sel k\<close>
  is what the \<^verbatim>\<open>select\<close> of iteration \<open>k\<close> observes. After the last iteration the function
  returns nil without a further receive.
\<close>

fun firstResponse_loop ::
  "(nat \<Rightarrow> Response option) \<Rightarrow> (nat \<Rightarrow> select_event) \<Rightarrow> nat \<Rightarrow> 'req list \<Rightarrow> Response option" where
  "firstResponse_loop Do sel k [] = None"
| "firstResponse_loop Do sel k (req # reqs) =
     (case sel k of
        TimedOut \<Rightarrow> firstResponse_loop Do sel (Suc k) reqs
      | Received j \<Rightarrow>
          (case Do j of
             None \<Rightarrow> firstResponse_loop Do sel (Suc k) reqs
           | Some resp \<Rightarrow>
               if go_div (StatusCode resp) 100 = 2 then Some resp
               else firstResponse_loop Do sel (Suc k) reqs))"

definition firstResponse ::
  "(nat \<Rightarrow> Response option) \<Rightarrow> (nat \<Rightarrow> select_event) \<Rightarrow> 'req list \<Rightarrow> Response option" where
  "firstResponse Do sel reqs = firstResponse_loop Do sel 0 reqs"

text \<open>
  The schedules that can happen: the \<^verbatim>\<open>select\<close> of iteration \<open>k\<close> can only receive from
  a goroutine that has been started (\<open>j \<le> k\<close>) and has not yet delivered its value.
\<close>

definition feasible :: "(nat \<Rightarrow> select_event) \<Rightarrow> nat \<Rightarrow> bool" where
  "feasible sel n =
     list_all (\<lambda>k. case sel k of
                      TimedOut \<Rightarrow> True
                    | Received j \<Rightarrow> j \<le> k \<and> list_all (\<lambda>k'. sel k' \<noteq> Received j) [0..<k])
              [0..<n]"

section \<open>The operations of the direct client\<close>

text \<open>
  A mutating operation builds its requests and hands them to the quorum dispatcher:
  \<^verbatim>\<open>return c.quorumResponse(reqs...)\<close>.
\<close>

text \<open>
  The six operations that drop the error of \<^verbatim>\<open>http.NewRequest\<close> and set no header of
  their own can hand a nil request to the dispatcher. The goroutine that
  \<^verbatim>\<open>quorumResponse\<close> starts for it calls \<^verbatim>\<open>c.client.Do(req)\<close>, which dereferences the
  nil request: the goroutine sends no status, and its panic ends the process. The call
  still returns a status when the statuses that reach the loop before that panic make a
  quorum; \<open>arrivals\<close> lists the statuses received before the process ends. Without a
  nil request this is \<^verbatim>\<open>quorumResponse\<close> itself.
\<close>

definition quorum_dispatch :: "Request option list \<Rightarrow> Response option list \<Rightarrow> int result" where
  "quorum_dispatch reqs arrivals =
     (case quorumResponse reqs arrivals of
        BlocksForever \<Rightarrow> if None \<in> set reqs then Panics NilPointerDereference else BlocksForever
      | r \<Rightarrow> r)"

definition PutAccount ::
  "Lib \<Rightarrow> ProxyDirectClient \<Rightarrow> string \<Rightarrow> Header \<Rightarrow> Response option list \<Rightarrow> int result" where
  "PutAccount lib c account headers arrivals =
     (case PutAccount_reqs lib c account headers of
        Inl p \<Rightarrow> Panics p
      | Inr reqs \<Rightarrow> quorum_dispatch reqs arrivals)"

definition PostAccount ::
  "Lib \<Rightarrow> ProxyDirectClient \<Rightarrow> string \<Rightarrow> Header \<Rightarrow> Response option list \<Rightarrow> int result" where
  "PostAccount lib c account headers arrivals =
     (case PostAccount_reqs lib c account headers of
        Inl p \<Rightarrow> Panics p
      | Inr reqs \<Rightarrow> quorum_dispatch reqs arrivals)"

definition DeleteAccount ::
  "Lib \<Rightarrow> ProxyDirectClient \<Rightarrow> string \<Rightarrow> Header \<Rightarrow> Response option list \<Rightarrow> int result" where
  "DeleteAccount lib c account headers arrivals =
     (case DeleteAccount_reqs lib c account headers of
        Inl p \<Rightarrow> Panics p
      | Inr reqs \<Rightarrow> quorum_dispatch reqs arrivals)"

definition PutContainer ::
  "Lib \<Rightarrow> ProxyDirectClient \<Rightarrow> string \<Rightarrow> string \<Rightarrow> Header \<Rightarrow> Response option list
     \<Rightarrow> int result" where
  "PutContainer lib c account container headers arrivals =
     (case PutContainer_reqs lib c account container headers of
        Inl p \<Rightarrow> Panics p
      | Inr reqs \<Rightarrow> quorumResponse reqs arrivals)"

definition PostContainer ::
  "Lib \<Rightarrow> ProxyDirectClient \<Rightarrow> string \<Rightarrow> string \<Rightarrow> Header \<Rightarrow> Response option list
     \<Rightarrow> int result" where
  "PostContainer lib c account container headers arrivals =
     (case PostContainer_reqs lib c account container headers of
        Inl p \<Rightarrow> Panics p
      | Inr reqs \<Rightarrow> quorum_dispatch reqs arrivals)"

definition DeleteContainer ::
  "Lib \<Rightarrow> ProxyDirectClient \<Rightarrow> string \<Rightarrow> string \<Rightarrow> Header \<Rightarrow> Response option list
     \<Rightarrow> int result" where
  "DeleteContainer lib c account container headers arrivals =
     (case DeleteContainer_reqs lib c account container headers of
        Inl p \<Rightarrow> Panics p
      | Inr reqs \<Rightarrow> quorumResponse reqs arrivals)"

definition PostObject ::
  "Lib \<Rightarrow> ProxyDirectClient \<Rightarrow> string \<Rightarrow> string \<Rightarrow> string \<Rightarrow> Header \<Rightarrow> Response option list
     \<Rightarrow> int result" where
  "PostObject lib c account container obj headers arrivals =
     (case PostObject_reqs lib c account container obj headers of
        Inl p \<Rightarrow> Panics p
      | Inr reqs \<Rightarrow> quorumResponse reqs arrivals)"

definition DeleteObject ::
  "Lib \<Rightarrow> ProxyDirectClient \<Rightarrow> string \<Rightarrow> string \<Rightarrow> string \<Rightarrow> Header \<Rightarrow> Response option list
     \<Rightarrow> int result" where
  "DeleteObject lib c account container obj headers arrivals =
     (case DeleteObject_reqs lib c account container obj headers of
        Inl p \<Rightarrow> Panics p
      | Inr reqs \<Rightarrow> quorumResponse reqs arrivals)"

subsection \<open>Streaming an object to the replicas\<close>

text \<open>
  What happens to the pipes of \<^verbatim>\<open>PutObject\<close>: \<open>Copy ws\<close> is the whole call
  \<^verbatim>\<open>io.Copy(mw, src)\<close> into the multi-writer over the write ends \<open>ws\<close>, which returns
  when the source is exhausted or a read or write fails; \<open>CloseWriter i\<close> and
  \<open>CloseReader i\<close> are calls of \<^verbatim>\<open>Close\<close> on the two ends of pipe \<open>i\<close>.
\<close>

datatype pipe_event = Copy "nat list" | CloseWriter nat | CloseReader nat

text \<open>
  The goroutine \<^verbatim>\<open>mw := io.MultiWriter(writers[0], writers[1], writers[2]); io.Copy(mw,
  src); for _, writer := range writers { writer.Close() }\<close>, as the sequence of its calls.
  Each of the three index expressions panics when \<^verbatim>\<open>writers\<close> is too short.
\<close>

definition copy_goroutine :: "nat list \<Rightarrow> panic + pipe_event list" where
  "copy_goroutine writers =
     (if 0 < length writers \<and> 1 < length writers \<and> 2 < length writers
      then Inr (Copy [writers ! 0, writers ! 1, writers ! 2] # map CloseWriter writers)
      else Inl IndexOutOfRange)"

text \<open>
  The calls deferred by the \<open>n\<close> iterations of the loop, \<^verbatim>\<open>defer wp.Close()\<close> and then
  \<^verbatim>\<open>defer rp.Close()\<close> in each, run last-in first-out when \<^verbatim>\<open>PutObject\<close> returns.
\<close>

definition deferred_closes :: "nat \<Rightarrow> pipe_event list" where
  "deferred_closes n = concat (map (\<lambda>i. [CloseReader i, CloseWriter i]) (rev [0..<n]))"

text \<open>
  One run of \<^verbatim>\<open>PutObject\<close> after its loop: what the call does (\<open>returned\<close>), the
  calls of the copying goroutine (\<open>copying\<close>), and the deferred calls that run when the
  function returns (\<open>deferred\<close>). The goroutine is started before the dispatcher is
  called and evaluates \<^verbatim>\<open>writers[0]\<close>, \<^verbatim>\<open>writers[1]\<close>, \<^verbatim>\<open>writers[2]\<close> in its first
  statement, while the dispatcher has to wait for answers of the replicas. When one of
  the index expressions panics the process ends there: the call returns no status and
  no deferred call runs. Otherwise the call does what the quorum dispatcher does, and
  the deferred calls run once it has returned or panicked. When the loop itself panics
  the goroutine is never started and the dispatcher is never called; the run is then
  only that panic.
\<close>

record PutObject_run =
  returned :: "int result"
  copying :: "panic + pipe_event list"
  deferred :: "pipe_event list"

definition PutObject ::
  "Lib \<Rightarrow> ProxyDirectClient \<Rightarrow> string \<Rightarrow> string \<Rightarrow> string \<Rightarrow> Header \<Rightarrow> Response option list
     \<Rightarrow> panic + PutObject_run" where
  "PutObject lib c account container obj headers arrivals =
     (case PutObject_reqs lib c account container obj headers of
        Inl p \<Rightarrow> Inl p
      | Inr built \<Rightarrow>
          let writers = map fst built;
              reqs = map snd built;
              n = length (GetNodes (ObjectRing c)
                            (GetPartition (ObjectRing c) account container obj))
          in (case copy_goroutine writers of
                Inl p \<Rightarrow> Inr \<lparr>returned = Panics p, copying = Inl p, deferred = []\<rparr>
              | Inr events \<Rightarrow>
                  let r = quorumResponse reqs arrivals
                  in Inr \<lparr>returned = r,
                          copying = Inr events,
                          deferred = (case r of BlocksForever \<Rightarrow> []
                                      | _ \<Rightarrow> deferred_closes n)\<rparr>))"

subsection \<open>Reads\<close>

text \<open>
  \<^verbatim>\<open>firstResponse\<close> on requests that may be nil. The goroutine of a nil request
  dereferences it in \<^verbatim>\<open>r.Cancel = cancel\<close>: it sends nothing, and its panic ends the
  process. For a nil request \<open>j\<close>, \<open>sel k = Received j\<close> says that this goroutine, started
  in iteration \<open>j \<le> k\<close>, runs during the \<^verbatim>\<open>select\<close> of iteration \<open>k\<close>. The call has
  returned before that when one of the first \<open>k\<close> iterations received a 2xx response, and
  it returns as \<^verbatim>\<open>firstResponse\<close> does when no \<^verbatim>\<open>select\<close> of the loop sees the panic.
\<close>

definition first_dispatch ::
  "(nat \<Rightarrow> Response option) \<Rightarrow> (nat \<Rightarrow> select_event) \<Rightarrow> Request option list
     \<Rightarrow> Response option result" where
  "first_dispatch Do sel reqs =
     (case find (\<lambda>k. case sel k of
                        TimedOut \<Rightarrow> False
                      | Received j \<Rightarrow> j \<le> k \<and> reqs ! j = None)
                [0..<length reqs] of
        None \<Rightarrow> Returns (firstResponse Do sel reqs)
      | Some k \<Rightarrow>
          (case firstResponse Do sel (take k reqs) of
             Some resp \<Rightarrow> Returns (Some resp)
           | None \<Rightarrow> Panics NilPointerDereference))"

text \<open>
  \<^verbatim>\<open>if resp == nil { return nil, nil, 404 }; return resp.Body, resp.Header,
  resp.StatusCode\<close>.
\<close>

definition read_result :: "Response option \<Rightarrow> string option \<times> Header option \<times> int" where
  "read_result resp =
     (case resp of
        None \<Rightarrow> (None, None, 404)
      | Some r \<Rightarrow> (Some (Response.Body r), Some (Response.Header r), StatusCode r))"

text \<open>
  \<^verbatim>\<open>if resp == nil { return nil, 404 }; resp.Body.Close(); return resp.Header,
  resp.StatusCode\<close>.
\<close>

definition head_result :: "Response option \<Rightarrow> Header option \<times> int" where
  "head_result resp =
     (case resp of
        None \<Rightarrow> (None, 404)
      | Some r \<Rightarrow> (Some (Response.Header r), StatusCode r))"

definition GetAccount ::
  "Lib \<Rightarrow> ProxyDirectClient \<Rightarrow> string \<Rightarrow> (string \<times> string) list \<Rightarrow> Header
     \<Rightarrow> (nat \<Rightarrow> Response option) \<Rightarrow> (nat \<Rightarrow> select_event)
     \<Rightarrow> (string option \<times> Header option \<times> int) result" where
  "GetAccount lib c account options headers Do sel =
     (case GetAccount_reqs lib c account options headers of
        Inl p \<Rightarrow> Panics p
      | Inr reqs \<Rightarrow>
          (case first_dispatch Do sel reqs of
             Returns resp \<Rightarrow> Returns (read_result resp)
           | BlocksForever \<Rightarrow> BlocksForever
           | Panics p \<Rightarrow> Panics p))"

definition HeadAccount ::
  "Lib \<Rightarrow> ProxyDirectClient \<Rightarrow> string \<Rightarrow> Header
     \<Rightarrow> (nat \<Rightarrow> Response option) \<Rightarrow> (nat \<Rightarrow> select_event) \<Rightarrow> (Header option \<times> int) result" where
  "HeadAccount lib c account headers Do sel =
     (case HeadAccount_reqs lib c account headers of
        Inl p \<Rightarrow> Panics p
      | Inr reqs \<Rightarrow> Returns (head_result (firstResponse Do sel reqs)))"

definition GetContainer ::
  "Lib \<Rightarrow> ProxyDirectClient \<Rightarrow> string \<Rightarrow> string \<Rightarrow> (string \<times> string) list \<Rightarrow> Header
     \<Rightarrow> (nat \<Rightarrow> Response option) \<Rightarrow> (nat \<Rightarrow> select_event)
     \<Rightarrow> (string option \<times> Header option \<times> int) result" where
  "GetContainer lib c account container options headers Do sel =
     (case GetContainer_reqs lib c account container options headers of
        Inl p \<Rightarrow> Panics p
      | Inr reqs \<Rightarrow>
          (case first_dispatch Do sel reqs of
             Returns resp \<Rightarrow> Returns (read_result resp)
           | BlocksForever \<Rightarrow> BlocksForever
           | Panics p \<Rightarrow> Panics p))"

definition HeadContainer ::
  "Lib \<Rightarrow> ProxyDirectClient \<Rightarrow> string \<Rightarrow> string \<Rightarrow> Header
     \<Rightarrow> (nat \<Rightarrow> Response option) \<Rightarrow> (nat \<Rightarrow> select_event) \<Rightarrow> (Header option \<times> int) result" where
  "HeadContainer lib c account container headers Do sel =
     (case HeadContainer_reqs lib c account container headers of
        Inl p \<Rightarrow> Panics p
      | Inr reqs \<Rightarrow> Returns (head_result (firstResponse Do sel reqs)))"

definition GetObject ::
  "Lib \<Rightarrow> ProxyDirectClient \<Rightarrow> string \<Rightarrow> string \<Rightarrow> string \<Rightarrow> Header
     \<Rightarrow> (nat \<Rightarrow> Response option) \<Rightarrow> (nat \<Rightarrow> select_event)
     \<Rightarrow> (string option \<times> Header option \<times> int) result" where
  "GetObject lib c account container obj headers Do sel =
     (case GetObject_reqs lib c account container obj headers of
        Inl p \<Rightarrow> Panics p
      | Inr reqs \<Rightarrow> Returns (read_result (firstResponse Do sel reqs)))"

definition GrepObject ::
  "Lib \<Rightarrow> ProxyDirectClient \<Rightarrow> string \<Rightarrow> string \<Rightarrow> string \<Rightarrow> string
     \<Rightarrow> (nat \<Rightarrow> Response option) \<Rightarrow> (nat \<Rightarrow> select_event)
     \<Rightarrow> (string option \<times> Header option \<times> int) result" where
  "GrepObject lib c account container obj search Do sel =
     (case GrepObject_reqs lib c account container obj search of
        Inl p \<Rightarrow> Panics p
      | Inr reqs \<Rightarrow> Returns (read_result (firstResponse Do sel reqs)))"

definition HeadObject ::
  "Lib \<Rightarrow> ProxyDirectClient \<Rightarrow> string \<Rightarrow> string \<Rightarrow> string \<Rightarrow> Header
     \<Rightarrow> (nat \<Rightarrow> Response option) \<Rightarrow> (nat \<Rightarrow> select_event) \<Rightarrow> (Header option \<times> int) result" where
  "HeadObject lib c account container obj headers Do sel =
     (case HeadObject_reqs lib c account container obj headers of
        Inl p \<Rightarrow> Panics p
      | Inr reqs \<Rightarrow> Returns (head_result (firstResponse Do sel reqs)))"

section \<open>The account-scoped client\<close>

text \<open>
  Modelled from the spec: the type \<^verbatim>\<open>HTTPError\<close> is declared outside the files at hand;
  the specification calls it an HTTP-status error carrying the integer code, and the
  client builds it with \<^verbatim>\<open>HTTPError(code)\<close>.
\<close>

datatype HTTPError = HTTPError int

record directClient =
  ProxyDirectClient :: ProxyDirectClient
  account :: string

text \<open>\<^verbatim>\<open>strconv.Itoa\<close>.\<close>

definition Itoa :: "int \<Rightarrow> string" where
  "Itoa n = (if n < 0 then ''-'' @ FormatUint (nat (- n)) else FormatUint (nat n))"

text \<open>
  The end of every mutating method:
  \<^verbatim>\<open>if code := ...; code/100 != 2 { return HTTPError(code) }; return nil\<close>.
\<close>

definition status_error :: "int result \<Rightarrow> HTTPError option result" where
  "status_error r =
     (case r of
        Returns code \<Rightarrow> Returns (if go_div code 100 \<noteq> 2 then Some (HTTPError code) else None)
      | BlocksForever \<Rightarrow> BlocksForever
      | Panics p \<Rightarrow> Panics p)"

definition directClient_PutAccount ::
  "Lib \<Rightarrow> directClient \<Rightarrow> (string \<times> string) list \<Rightarrow> Response option list
     \<Rightarrow> HTTPError option result" where
  "directClient_PutAccount lib c headers arrivals =
     status_error (PutAccount lib (ProxyDirectClient c) (account c) (Map2Headers lib headers)
                     arrivals)"

definition directClient_PostAccount ::
  "Lib \<Rightarrow> directClient \<Rightarrow> (string \<times> string) list \<Rightarrow> Response option list
     \<Rightarrow> HTTPError option result" where
  "directClient_PostAccount lib c headers arrivals =
     status_error (PostAccount lib (ProxyDirectClient c) (account c) (Map2Headers lib headers)
                     arrivals)"

definition directClient_DeleteAccount ::
  "Lib \<Rightarrow> directClient \<Rightarrow> (string \<times> string) list \<Rightarrow> Response option list
     \<Rightarrow> HTTPError option result" where
  "directClient_DeleteAccount lib c headers arrivals =
     status_error (DeleteAccount lib (ProxyDirectClient c) (account c) (Map2Headers lib headers)
                     arrivals)"

definition directClient_PutContainer ::
  "Lib \<Rightarrow> directClient \<Rightarrow> string \<Rightarrow> (string \<times> string) list \<Rightarrow> Response option list
     \<Rightarrow> HTTPError option result" where
  "directClient_PutContainer lib c container headers arrivals =
     status_error (PutContainer lib (ProxyDirectClient c) (account c) container
                     (Map2Headers lib headers) arrivals)"

definition directClient_PostContainer ::
  "Lib \<Rightarrow> directClient \<Rightarrow> string \<Rightarrow> (string \<times> string) list \<Rightarrow> Response option list
     \<Rightarrow> HTTPError option result" where
  "directClient_PostContainer lib c container headers arrivals =
     status_error (PostContainer lib (ProxyDirectClient c) (account c) container
                     (Map2Headers lib headers) arrivals)"

definition directClient_DeleteContainer ::
  "Lib \<Rightarrow> directClient \<Rightarrow> string \<Rightarrow> (string \<times> string) list \<Rightarrow> Response option list
     \<Rightarrow> HTTPError option result" where
  "directClient_DeleteContainer lib c container headers arrivals =
     status_error (DeleteContainer lib (ProxyDirectClient c) (account c) container
                     (Map2Headers lib headers) arrivals)"

definition directClient_PutObject ::
  "Lib \<Rightarrow> directClient \<Rightarrow> string \<Rightarrow> string \<Rightarrow> (string \<times> string) list \<Rightarrow> Response option list
     \<Rightarrow> HTTPError option result" where
  "directClient_PutObject lib c container obj headers arrivals =
     (case PutObject lib (ProxyDirectClient c) (account c) container obj
             (Map2Headers lib headers) arrivals of
        Inl p \<Rightarrow> Panics p
      | Inr run \<Rightarrow> status_error (returned run))"

definition directClient_PostObject ::
  "Lib \<Rightarrow> directClient \<Rightarrow> string \<Rightarrow> string \<Rightarrow> (string \<times> string) list \<Rightarrow> Response option list
     \<Rightarrow> HTTPError option result" where
  "directClient_PostObject lib c container obj headers arrivals =
     status_error (PostObject lib (ProxyDirectClient c) (account c) container obj
                     (Map2Headers lib headers) arrivals)"

definition directClient_DeleteObject ::
  "Lib \<Rightarrow> directClient \<Rightarrow> string \<Rightarrow> string \<Rightarrow> (string \<times> string) list \<Rightarrow> Response option list
     \<Rightarrow> HTTPError option result" where
  "directClient_DeleteObject lib c container obj headers arrivals =
     status_error (DeleteObject lib (ProxyDirectClient c) (account c) container obj
                     (Map2Headers lib headers) arrivals)"

text \<open>
  The end of every \<^verbatim>\<open>Head\<close> method: \<^verbatim>\<open>if code/100 != 2 { return nil, HTTPError(code) };
  return common.Headers2Map(h), nil\<close>. A nil header map ranges as the empty map.
\<close>

definition head_error ::
  "Lib \<Rightarrow> (Header option \<times> int) result \<Rightarrow> ((string \<times> string) list option \<times> HTTPError option) result" where
  "head_error lib r =
     (case r of
        Returns (h, code) \<Rightarrow>
          Returns (if go_div code 100 \<noteq> 2 then (None, Some (HTTPError code))
                   else (Some (Headers2Map lib (case h of None \<Rightarrow> [] | Some hs \<Rightarrow> hs)), None))
      | BlocksForever \<Rightarrow> BlocksForever
      | Panics p \<Rightarrow> Panics p)"

definition directClient_HeadAccount ::
  "Lib \<Rightarrow> directClient \<Rightarrow> (string \<times> string) list
     \<Rightarrow> (nat \<Rightarrow> Response option) \<Rightarrow> (nat \<Rightarrow> select_event)
     \<Rightarrow> ((string \<times> string) list option \<times> HTTPError option) result" where
  "directClient_HeadAccount lib c headers Do sel =
     head_error lib (HeadAccount lib (ProxyDirectClient c) (account c)
                       (Map2Headers lib headers) Do sel)"

definition directClient_HeadContainer ::
  "Lib \<Rightarrow> directClient \<Rightarrow> string \<Rightarrow> (string \<times> string) list
     \<Rightarrow> (nat \<Rightarrow> Response option) \<Rightarrow> (nat \<Rightarrow> select_event)
     \<Rightarrow> ((string \<times> string) list option \<times> HTTPError option) result" where
  "directClient_HeadContainer lib c container headers Do sel =
     head_error lib (HeadContainer lib (ProxyDirectClient c) (account c) container
                       (Map2Headers lib headers) Do sel)"

definition directClient_HeadObject ::
  "Lib \<Rightarrow> directClient \<Rightarrow> string \<Rightarrow> string \<Rightarrow> (string \<times> string) list
     \<Rightarrow> (nat \<Rightarrow> Response option) \<Rightarrow> (nat \<Rightarrow> select_event)
     \<Rightarrow> ((string \<times> string) list option \<times> HTTPError option) result" where
  "directClient_HeadObject lib c container obj headers Do sel =
     head_error lib (HeadObject lib (ProxyDirectClient c) (account c) container obj
                       (Map2Headers lib headers) Do sel)"

text \<open>
  \<^verbatim>\<open>GetObject\<close>: \<^verbatim>\<open>if code/100 != 2 { if r != nil { r.Close() }; return nil, nil,
  HTTPError(code) }; return r, common.Headers2Map(h), nil\<close>.
\<close>

definition directClient_GetObject ::
  "Lib \<Rightarrow> directClient \<Rightarrow> string \<Rightarrow> string \<Rightarrow> (string \<times> string) list
     \<Rightarrow> (nat \<Rightarrow> Response option) \<Rightarrow> (nat \<Rightarrow> select_event)
     \<Rightarrow> (string option \<times> (string \<times> string) list option \<times> HTTPError option) result" where
  "directClient_GetObject lib c container obj headers Do sel =
     (case GetObject lib (ProxyDirectClient c) (account c) container obj
             (Map2Headers lib headers) Do sel of
        Returns (r, h, code) \<Rightarrow>
          Returns (if go_div code 100 \<noteq> 2 then (None, None, Some (HTTPError code))
                   else (r, Some (Headers2Map lib (case h of None \<Rightarrow> [] | Some hs \<Rightarrow> hs)), None))
      | BlocksForever \<Rightarrow> BlocksForever
      | Panics p \<Rightarrow> Panics p)"

text \<open>
  The options of a listing: \<^verbatim>\<open>format\<close>, \<^verbatim>\<open>marker\<close>, \<^verbatim>\<open>end_marker\<close>, \<^verbatim>\<open>prefix\<close>,
  \<^verbatim>\<open>delimiter\<close>, and \<^verbatim>\<open>limit\<close> when it is not zero.
\<close>

definition listing_options ::
  "string \<Rightarrow> string \<Rightarrow> int \<Rightarrow> string \<Rightarrow> string \<Rightarrow> (string \<times> string) list" where
  "listing_options marker endMarker limit prefix delimiter =
     [(''format'', ''json''), (''marker'', marker), (''end_marker'', endMarker),
      (''prefix'', prefix), (''delimiter'', delimiter)]
     @ (if limit \<noteq> 0 then [(''limit'', Itoa limit)] else [])"

text \<open>
  The end of both listing methods: \<^verbatim>\<open>if code != 200 { return nil, nil, HTTPError(code) }\<close>,
  then the body is decoded (\<open>decode\<close> stands for the JSON decoder, whose error is dropped)
  and returned with \<^verbatim>\<open>common.Headers2Map(h)\<close> and a nil error. Decoding from a nil body
  dereferences it.
\<close>

definition listing_result ::
  "Lib \<Rightarrow> (string \<Rightarrow> 'r list) \<Rightarrow> (string option \<times> Header option \<times> int) result
     \<Rightarrow> ('r list option \<times> (string \<times> string) list option \<times> HTTPError option) result" where
  "listing_result lib decode res =
     (case res of
        Returns (r, h, code) \<Rightarrow>
          if code \<noteq> 200 then Returns (None, None, Some (HTTPError code))
          else (case r of
                  None \<Rightarrow> Panics NilPointerDereference
                | Some body \<Rightarrow>
                    Returns (Some (decode body),
                             Some (Headers2Map lib (case h of None \<Rightarrow> [] | Some hs \<Rightarrow> hs)),
                             None))
      | BlocksForever \<Rightarrow> BlocksForever
      | Panics p \<Rightarrow> Panics p)"

definition directClient_GetAccount ::
  "Lib \<Rightarrow> (string \<Rightarrow> 'r list) \<Rightarrow> directClient \<Rightarrow> string \<Rightarrow> string \<Rightarrow> int \<Rightarrow> string \<Rightarrow> string
     \<Rightarrow> (string \<times> string) list \<Rightarrow> (nat \<Rightarrow> Response option) \<Rightarrow> (nat \<Rightarrow> select_event)
     \<Rightarrow> ('r list option \<times> (string \<times> string) list option \<times> HTTPError option) result" where
  "directClient_GetAccount lib decode c marker endMarker limit prefix delimiter headers Do sel =
     listing_result lib decode
       (GetAccount lib (ProxyDirectClient c) (account c)
          (listing_options marker endMarker limit prefix delimiter)
          (Map2Headers lib headers) Do sel)"

definition directClient_GetContainer ::
  "Lib \<Rightarrow> (string \<Rightarrow> 'r list) \<Rightarrow> directClient \<Rightarrow> string \<Rightarrow> string \<Rightarrow> string \<Rightarrow> int \<Rightarrow> string
     \<Rightarrow> string \<Rightarrow> (string \<times> string) list \<Rightarrow> (nat \<Rightarrow> Response option) \<Rightarrow> (nat \<Rightarrow> select_event)
     \<Rightarrow> ('r list option \<times> (string \<times> string) list option \<times> HTTPError option) result" where
  "directClient_GetContainer lib decode c container marker endMarker limit prefix delimiter
       headers Do sel =
     listing_result lib decode
       (GetContainer lib (ProxyDirectClient c) (account c) container
          (listing_options marker endMarker limit prefix delimiter)
          (Map2Headers lib headers) Do sel)"

section \<open>Example data\<close>

text \<open>A backend response with the given status code, no header and an empty body.\<close>

definition reply :: "int \<Rightarrow> Response" where
  "reply code = \<lparr>StatusCode = code, Header = [], Body = ''''\<rparr>"

text \<open>
  Stand-ins for the library functions: header keys that are already canonical, names that
  need no escaping, and a URL parser that rejects a stray percent sign.
\<close>

definition example_lib :: Lib where
  "example_lib =
     \<lparr>CanonicalMIMEHeaderKey = (\<lambda>key. key),
      url_Parse = (\<lambda>url. CHR ''%'' \<notin> set url),
      Urlencode = (\<lambda>s. s),
      QueryEscape = (\<lambda>s. s),
      Map2Headers = map (\<lambda>(k, v). (k, [v])),
      Headers2Map = map (\<lambda>(k, vs). (k, concat vs))\<rparr>"

definition example_device :: "string \<Rightarrow> Device" where
  "example_device name = \<lparr>Ip = ''127.0.0.1'', Port = 6010, Device = name\<rparr>"

text \<open>A ring that puts every path in partition 7 and on the given devices.\<close>

definition example_ring :: "string list \<Rightarrow> Ring" where
  "example_ring names =
     \<lparr>GetPartition = (\<lambda>account container obj. 7),
      GetNodes = (\<lambda>part. map example_device names)\<rparr>"

definition example_client :: "string list \<Rightarrow> string list \<Rightarrow> string list \<Rightarrow> ProxyDirectClient" where
  "example_client accountNodes containerNodes objectNodes =
     \<lparr>AccountRing = example_ring accountNodes,
      ContainerRing = example_ring containerNodes,
      ObjectRing = example_ring objectNodes\<rparr>"

definition three_nodes :: "string list" where
  "three_nodes = [''sdb1'', ''sdb2'', ''sdb3'']"

text \<open>A client whose three rings have the same three devices.\<close>

definition three_replicas :: ProxyDirectClient where
  "three_replicas = example_client three_nodes three_nodes three_nodes"

text \<open>
  Environments of the first-response dispatcher: the outcomes of the sub-requests given
  as a list, every \<^verbatim>\<open>select\<close> receiving the response of the request just started, and
  every \<^verbatim>\<open>select\<close> timing out.
\<close>

definition answers :: "Response option list \<Rightarrow> nat \<Rightarrow> Response option" where
  "answers rs j = (if j < length rs then rs ! j else None)"

definition in_turn :: "nat \<Rightarrow> select_event" where
  "in_turn k = Received k"

definition all_timed_out :: "nat \<Rightarrow> select_event" where
  "all_timed_out k = TimedOut"

text \<open>A stand-in for the JSON decoder of a listing: one record, the whole body.\<close>

definition example_decode :: "string \<Rightarrow> string list" where
  "example_decode body = [body]"

definition example_directClient :: "string list \<Rightarrow> string list \<Rightarrow> string list \<Rightarrow> directClient" where
  "example_directClient accountNodes containerNodes objectNodes =
     \<lparr>ProxyDirectClient = example_client accountNodes containerNodes objectNodes,
      account = ''a''\<rparr>"

section \<open>Properties to be checked\<close>

text \<open>
  The placement headers of a child-tier write as the specification words them: the
  request carries \<open>X-<Parent>-Partition\<close> with the parent's partition, \<open>X-<Parent>-Host\<close>
  with \<open>ip:port\<close> of the parent device and \<open>X-<Parent>-Device\<close> with its device name,
  each with exactly that value.
\<close>

definition carries_placement :: "Lib \<Rightarrow> string \<Rightarrow> 64 word \<Rightarrow> Device \<Rightarrow> Request \<Rightarrow> bool" where
  "carries_placement lib parent parentPartition parentDevice req \<longleftrightarrow>
     map_of (Request.Header req) (CanonicalMIMEHeaderKey lib (''X-'' @ parent @ ''-Partition''))
       = Some [FormatUint (unat parentPartition)]
     \<and> map_of (Request.Header req) (CanonicalMIMEHeaderKey lib (''X-'' @ parent @ ''-Host''))
       = Some [Ip parentDevice @ '':'' @ FormatUint (unat (Port parentDevice))]
     \<and> map_of (Request.Header req) (CanonicalMIMEHeaderKey lib (''X-'' @ parent @ ''-Device''))
       = Some [Device parentDevice]"

text \<open>The header keys that each tier's writes set themselves.\<close>

definition account_keys :: "string list" where
  "account_keys = [''X-Account-Partition'', ''X-Account-Host'', ''X-Account-Device'']"

definition object_keys :: "string list" where
  "object_keys =
     [''Content-Type'', ''X-Container-Partition'', ''X-Container-Host'', ''X-Container-Device'']"

definition container_keys :: "string list" where
  "container_keys = object_keys @ [''Expect'']"

text \<open>
  A request names the parent device at replica index \<open>i\<close>: the parent ring has a device
  at that index, and the request carries the placement headers for it.
\<close>

definition names_parent :: "Lib \<Rightarrow> string \<Rightarrow> Ring \<Rightarrow> 64 word \<Rightarrow> nat \<Rightarrow> Request \<Rightarrow> bool" where
  "names_parent lib parent ring parentPartition i req \<longleftrightarrow>
     i < length (GetNodes ring parentPartition)
     \<and> carries_placement lib parent parentPartition (GetNodes ring parentPartition ! i) req"



text \<open>
  The number of calls of \<^verbatim>\<open>Close\<close> on the write end of pipe \<open>i\<close> in a run of
  \<^verbatim>\<open>PutObject\<close>, by the copying goroutine and by the deferred calls together.
\<close>

definition close_calls :: "nat \<Rightarrow> PutObject_run \<Rightarrow> nat" where
  "close_calls i run =
     count_list ((case copying run of Inl p \<Rightarrow> [] | Inr events \<Rightarrow> events) @ deferred run)
       (CloseWriter i)"

definition four_nodes :: "string list" where
  "four_nodes = [''sdb1'', ''sdb2'', ''sdb3'', ''sdb4'']"

text \<open>Five devices, the second with a name that makes its URL unparseable.\<close>

definition five_nodes_one_bad :: "string list" where
  "five_nodes_one_bad = [''sdb1'', ''sd%zz'', ''sdb3'', ''sdb4'', ''sdb5'']"

definition five_nodes :: "string list" where
  "five_nodes = [''sdb1'', ''sdb2'', ''sdb3'', ''sdb4'', ''sdb5'']"

text \<open>
  A client whose object ring has five replicas, one of them with an unparseable URL, and
  whose container ring has five replicas.
\<close>

definition five_replicas_one_bad :: ProxyDirectClient where
  "five_replicas_one_bad = example_client [] five_nodes five_nodes_one_bad"

definition example_request :: Request where
  "example_request =
     \<lparr>Method = ''PUT'', URL = ''http://127.0.0.1:6010/sdb1/7/a'', Header = [], Body = None\<rparr>"

section \<open>Evaluating the examples\<close>

lemmas example_defs =
  example_lib_def example_client_def example_ring_def example_device_def
  answers_def in_turn_def reply_def

lemmas request_defs =
  node_url_def account_url_def container_url_def object_url_def FormatUint.simps NewRequest_def err_continue_def
  err_ignored_def err_ignored_copy_def copy_headers_def Header_Set_def Header_Get_def set_placement_def
  enumerate_eq_zip

section \<open>Dispatching requests, built or nil\<close>

lemma quorum_dispatch_built:
  "None \<notin> set reqs \<Longrightarrow> quorum_dispatch reqs arrivals = quorumResponse reqs arrivals"
  by (simp add: quorum_dispatch_def split: result.splits)

lemma first_dispatch_built:
  assumes "None \<notin> set reqs"
  shows "first_dispatch Do sel reqs = Returns (firstResponse Do sel reqs)"
proof -
  have "find (\<lambda>k. case sel k of TimedOut \<Rightarrow> False
                   | Received j \<Rightarrow> j \<le> k \<and> reqs ! j = None) [0..<length reqs] = None"
    using assms by (auto simp: find_None_iff in_set_conv_nth split: select_event.splits)
  then show ?thesis by (simp add: first_dispatch_def)
qed

text \<open>
  An account ring of three devices, the second with a name that makes its URL
  unparseable. Without caller headers \<^verbatim>\<open>PutAccount\<close> hands the dispatcher two requests
  and a nil request, with threshold 2: it returns 201 when two 201 responses reach the
  loop before the goroutine of the nil request ends the process, and does not return
  otherwise. With a caller header it panics in its own loop.
\<close>

lemma PutAccount_nil_request:
  "PutAccount_reqs example_lib (example_client [''sdb1'', ''sd%zz'', ''sdb3''] [] []) ''a'' []
     = Inr [Some \<lparr>Method = ''PUT'', URL = ''http://127.0.0.1:6010/sdb1/7/a'',
                   Header = [], Body = None\<rparr>,
            None,
            Some \<lparr>Method = ''PUT'', URL = ''http://127.0.0.1:6010/sdb3/7/a'',
                   Header = [], Body = None\<rparr>]
   \<and> PutAccount example_lib (example_client [''sdb1'', ''sd%zz'', ''sdb3''] [] []) ''a'' []
        [Some (reply 201), Some (reply 201)]
       = Returns 201
   \<and> PutAccount example_lib (example_client [''sdb1'', ''sd%zz'', ''sdb3''] [] []) ''a'' []
        [Some (reply 201)]
       = Panics NilPointerDereference
   \<and> PutAccount example_lib (example_client [''sdb1'', ''sd%zz'', ''sdb3''] [] []) ''a''
        [(''X-Trans-Id'', [''tx1''])] [Some (reply 201), Some (reply 201)]
       = Panics NilPointerDereference"
  by (simp add: PutAccount_def PutAccount_reqs_def quorum_dispatch_def quorumResponse_def
        quorum_of_def go_div_def example_defs request_defs)

text \<open>
  The same for a read: the first of two devices has an unparseable URL. When the first
  \<^verbatim>\<open>select\<close> times out and the second receives the 200 of the second request,
  \<^verbatim>\<open>GetAccount\<close> returns it; when the goroutine of the nil request runs during the first
  \<^verbatim>\<open>select\<close> the process ends there.
\<close>

lemma GetAccount_nil_request:
  "GetAccount_reqs example_lib (example_client [''sd%zz'', ''sdb2''] [] []) ''a'' [] []
     = Inr [None,
            Some \<lparr>Method = ''GET'', URL = ''http://127.0.0.1:6010/sdb2/7/a'',
                   Header = [], Body = None\<rparr>]
   \<and> GetAccount example_lib (example_client [''sd%zz'', ''sdb2''] [] []) ''a'' [] []
        (\<lambda>j. Some (reply 200)) (\<lambda>k. if k = 0 then TimedOut else Received 1)
       = Returns (Some '''', Some [], 200)
   \<and> GetAccount example_lib (example_client [''sd%zz'', ''sdb2''] [] []) ''a'' [] []
        (\<lambda>j. Some (reply 200)) (\<lambda>k. Received k)
       = Panics NilPointerDereference"
  by (simp add: GetAccount_def GetAccount_reqs_def first_dispatch_def firstResponse_def
        read_result_def mkquery_def go_div_def example_defs request_defs upt_rec[of 0])

section \<open>Properties of the quorum dispatcher\<close>

lemma quorum_of_div: "quorum_of n = (int n + 1) div 2"
  unfolding quorum_of_def by linarith

lemma go_div_nonneg: "0 \<le> a \<Longrightarrow> go_div a 100 = a div 100"
  by (simp add: go_div_def sgn_if)

lemma six_zeros: "i < 6 \<Longrightarrow> [0, 0, 0, 0, 0, 0::int] ! i = 0"
proof -
  assume "i < 6"
  then have "i \<in> {0, 1, 2, 3, 4, 5}" by auto
  then show ?thesis by auto
qed

text \<open>
  When the loop returns, it returns the status it has just received, that status is in one
  of the six counted classes, and with it the counter of its class has reached the
  threshold.
\<close>

lemma quorum_loop_Returns:
  "quorum_loop q rc xs = Returns s \<Longrightarrow> length rc = 6 \<Longrightarrow>
   \<exists>pre post. xs = pre @ s # post \<and> 0 \<le> go_div s 100 \<and> go_div s 100 \<le> 5 \<and>
     q \<le> rc ! nat (go_div s 100)
          + int (length (filter (\<lambda>x. go_div x 100 = go_div s 100) (pre @ [s])))"
proof (induction xs arbitrary: rc)
  case Nil
  then show ?case by simp
next
  case (Cons x xs)
  let ?c = "go_div x 100"
  let ?same = "\<lambda>x. go_div x 100 = go_div s 100"
  show ?case
  proof (cases "?c \<le> 5")
    case False
    with Cons.prems have run: "quorum_loop q rc xs = Returns s" by simp
    from Cons.IH[OF run Cons.prems(2)] obtain pre post where
      h: "xs = pre @ s # post" "0 \<le> go_div s 100" "go_div s 100 \<le> 5"
         "q \<le> rc ! nat (go_div s 100) + int (length (filter ?same (pre @ [s])))"
      by blast
    from h False have ne: "?c \<noteq> go_div s 100" by auto
    have "x # xs = (x # pre) @ s # post" using h(1) by simp
    moreover have
      "q \<le> rc ! nat (go_div s 100) + int (length (filter ?same ((x # pre) @ [s])))"
      using h(4) ne by simp
    ultimately show ?thesis using h(2,3) by blast
  next
    case le5: True
    show ?thesis
    proof (cases "?c < 0")
      case True
      with le5 Cons.prems show ?thesis by simp
    next
      case nonneg: False
      let ?rc' = "rc[nat ?c := rc ! nat ?c + 1]"
      have idx: "nat ?c < length rc" using le5 nonneg Cons.prems(2) by simp
      show ?thesis
      proof (cases "q \<le> ?rc' ! nat ?c")
        case True
        with le5 nonneg Cons.prems have sx: "s = x" by (simp add: Let_def)
        have "x # xs = [] @ s # xs" using sx by simp
        moreover have
          "q \<le> rc ! nat (go_div s 100) + int (length (filter ?same ([] @ [s])))"
          using True idx sx by simp
        ultimately show ?thesis using le5 nonneg sx by (metis linorder_not_less)
      next
        case False
        with le5 nonneg Cons.prems have run: "quorum_loop q ?rc' xs = Returns s"
          by (simp add: Let_def)
        have len: "length ?rc' = 6" using Cons.prems(2) by simp
        from Cons.IH[OF run len] obtain pre post where
          h: "xs = pre @ s # post" "0 \<le> go_div s 100" "go_div s 100 \<le> 5"
             "q \<le> ?rc' ! nat (go_div s 100) + int (length (filter ?same (pre @ [s])))"
          by blast
        have "x # xs = (x # pre) @ s # post" using h(1) by simp
        moreover have
          "q \<le> rc ! nat (go_div s 100) + int (length (filter ?same ((x # pre) @ [s])))"
        proof (cases "?c = go_div s 100")
          case True
          then show ?thesis using h(4) idx by simp
        next
          case False
          then have "nat ?c \<noteq> nat (go_div s 100)" using nonneg h(2) by simp
          then show ?thesis using h(4) False by simp
        qed
        ultimately show ?thesis using h(2,3) by blast
      qed
    qed
  qed
qed

text \<open>
  The part of the dispatcher's contract that the code keeps: a returned status was
  produced by one of the sub-requests, and when it arrived its class had been seen at
  least \<open>\<lceil>R/2\<rceil>\<close> times among the arrivals so far.
\<close>

lemma quorumResponse_Returns_majority:
  assumes "quorumResponse reqs arrivals = Returns s"
  shows "\<exists>pre a post. arrivals = pre @ a # post \<and> goroutine_status a = s \<and>
           0 \<le> go_div s 100 \<and> go_div s 100 \<le> 5 \<and>
           quorum_of (length reqs)
             \<le> int (length (filter (\<lambda>b. go_div (goroutine_status b) 100 = go_div s 100)
                               (pre @ [a])))"
proof -
  let ?same = "\<lambda>x. go_div x 100 = go_div s 100"
  from assms have
    "quorum_loop (quorum_of (length reqs)) [0, 0, 0, 0, 0, 0] (map goroutine_status arrivals)
       = Returns s"
    by (simp add: quorumResponse_def)
  from quorum_loop_Returns[OF this] obtain pre post where
    h: "map goroutine_status arrivals = pre @ s # post"
       "0 \<le> go_div s 100" "go_div s 100 \<le> 5"
       "quorum_of (length reqs)
          \<le> [0, 0, 0, 0, 0, 0] ! nat (go_div s 100) + int (length (filter ?same (pre @ [s])))"
    by auto
  from h(1) obtain pre' a post' where
    a: "arrivals = pre' @ a # post'" "map goroutine_status pre' = pre" "goroutine_status a = s"
    by (auto simp: map_eq_append_conv map_eq_Cons_conv)
  have "nat (go_div s 100) < 6" using h(2,3) by simp
  then have zero: "[0, 0, 0, 0, 0, 0::int] ! nat (go_div s 100) = 0" by (rule six_zeros)
  have "pre @ [s] = map goroutine_status (pre' @ [a])"
    using a(2,3) by simp
  then have "filter ?same (pre @ [s]) = map goroutine_status
          (filter (\<lambda>b. go_div (goroutine_status b) 100 = go_div s 100) (pre' @ [a]))"
    by (simp only: filter_map comp_def)
  then have "length (filter ?same (pre @ [s]))
      = length (filter (\<lambda>b. go_div (goroutine_status b) 100 = go_div s 100) (pre' @ [a]))"
    by simp
  with h(4) zero have "quorum_of (length reqs)
      \<le> int (length (filter (\<lambda>b. go_div (goroutine_status b) 100 = go_div s 100) (pre' @ [a])))"
    by simp
  with a h(2,3) show ?thesis by blast
qed

lemma quorum_loop_first:
  assumes "0 \<le> go_div s 100" "go_div s 100 \<le> 5" "length rc = 6"
    and "q \<le> rc ! nat (go_div s 100) + 1"
  shows "quorum_loop q rc (s # xs) = Returns s"
proof -
  have "nat (go_div s 100) < length rc" using assms by simp
  then have "rc[nat (go_div s 100) := rc ! nat (go_div s 100) + 1] ! nat (go_div s 100)
     = rc ! nat (go_div s 100) + 1" by (rule nth_list_update_eq)
  then show ?thesis using assms by (simp add: Let_def del: nth_list_update_eq)
qed

text \<open>
  C1. The quorum dispatcher is meant to return 503 when all R sub-requests have completed
  and no status class has reached the threshold. With three sub-requests answering 201,
  404 and 500 no class reaches \<open>\<lceil>3/2\<rceil> = 2\<close>, and the dispatcher does not return 503:
  it waits for ever for a fourth status on the channel that is never closed.
\<close>

theorem quorumResponse_split_blocks:
  "quorumResponse [example_request, example_request, example_request]
       [Some (reply 201), Some (reply 404), Some (reply 500)]
     = BlocksForever
   \<and> quorumResponse [example_request, example_request, example_request]
       [Some (reply 201), Some (reply 404), Some (reply 500)]
     \<noteq> Returns 503
   \<and> PutAccount example_lib three_replicas ''a'' []
       [Some (reply 201), Some (reply 404), Some (reply 500)]
     = BlocksForever"
  by (simp add: quorumResponse_def quorum_dispatch_def quorum_of_div go_div_def PutAccount_def
        PutAccount_reqs_def example_defs three_replicas_def three_nodes_def request_defs)

text \<open>
  C4 (as amended). With a single sub-request the threshold is 1: a single response with a
  status between 0 and 599 (classes 0xx to 5xx, so every 2xx, 4xx and 5xx response) is
  returned as the final result, and a transport failure on that single sub-request makes
  the dispatcher return 500, the status the goroutine substitutes for the failure.
\<close>

theorem quorumResponse_single:
  "quorum_of 1 = 1
   \<and> (0 \<le> StatusCode resp \<and> StatusCode resp < 600
        \<longrightarrow> quorumResponse [req] [Some resp] = Returns (StatusCode resp))
   \<and> quorumResponse [req] [None] = Returns 500"
proof -
  have q: "quorum_of 1 = 1" by (simp add: quorum_of_div)
  have r: "quorumResponse [req] [Some resp] = Returns (StatusCode resp)"
    if a: "0 \<le> StatusCode resp" "StatusCode resp < 600"
  proof -
    define code where "code = StatusCode resp"
    note a = a[folded code_def]
    from a have g: "go_div code 100 = code div 100" by (simp add: go_div_nonneg)
    have b: "code div 100 \<le> 5" "0 \<le> code div 100" using a by auto
    then have "nat (code div 100) < 6" by simp
    then have z: "[0, 0, 0, 0, 0, 0::int] ! nat (code div 100) = 0" by (rule six_zeros)
    have "quorum_loop 1 [0, 0, 0, 0, 0, 0] (code # []) = Returns code"
      by (rule quorum_loop_first) (use g b z in simp_all)
    then show ?thesis
      by (simp add: quorumResponse_def quorum_of_div code_def)
  qed
  have t: "quorumResponse [req] [None] = Returns 500"
    by (simp add: quorumResponse_def quorum_of_div go_div_def reply_def)
  from q r t show ?thesis by blast
qed

theorem quorumResponse_single_witness:
  "0 \<le> StatusCode (reply 404) \<and> StatusCode (reply 404) < 600
   \<and> quorumResponse [example_request] [Some (reply 404)] = Returns 404
   \<and> quorumResponse [example_request] [None] = Returns 500"
  using quorumResponse_single [of "reply 404" example_request] by (simp add: reply_def)

text \<open>
  C4 as the specification words it fails: a transport failure on the only sub-request
  does not yield 503.
\<close>

theorem quorumResponse_single_failure_not_503:
  "quorumResponse [example_request] [None] \<noteq> Returns 503"
  by (simp add: quorumResponse_def quorum_of_div go_div_def reply_def)

section \<open>Properties of the first-response dispatcher\<close>

lemma firstResponse_loop_Some:
  "firstResponse_loop Do sel k reqs = Some resp \<Longrightarrow>
   go_div (StatusCode resp) 100 = 2 \<and>
   (\<exists>i<length reqs. \<exists>j. sel (k + i) = Received j \<and> Do j = Some resp)"
proof (induction reqs arbitrary: k)
  case Nil
  then show ?case by simp
next
  case (Cons req reqs)
  show ?case
  proof (cases "firstResponse_loop Do sel (Suc k) reqs = Some resp")
    case True
    from Cons.IH[OF True] obtain i j where
      h: "go_div (StatusCode resp) 100 = 2" "i < length reqs"
         "sel (Suc k + i) = Received j" "Do j = Some resp"
      by blast
    then have "Suc i < length (req # reqs)" "sel (k + Suc i) = Received j" by simp_all
    with h(1,4) show ?thesis by blast
  next
    case False
    with Cons.prems obtain j where
      h: "sel k = Received j" "Do j = Some resp" "go_div (StatusCode resp) 100 = 2"
      by (auto split: select_event.splits option.splits if_splits)
    then have "0 < length (req # reqs)" "sel (k + 0) = Received j" by simp_all
    with h(2,3) show ?thesis by blast
  qed
qed

lemma firstResponse_loop_None:
  "firstResponse_loop Do sel k reqs = None \<Longrightarrow> i < length reqs \<Longrightarrow>
   sel (k + i) = Received j \<Longrightarrow> Do j = Some r \<Longrightarrow> go_div (StatusCode r) 100 \<noteq> 2"
proof (induction reqs arbitrary: k i)
  case Nil
  then show ?case by simp
next
  case (Cons req reqs)
  show ?case
  proof (cases i)
    case 0
    with Cons.prems show ?thesis by (auto split: if_splits)
  next
    case (Suc i')
    from Cons.prems(1) have rest: "firstResponse_loop Do sel (Suc k) reqs = None"
      by (auto split: select_event.splits option.splits if_splits)
    from Cons.prems Suc have "i' < length reqs" "sel (Suc k + i') = Received j" by simp_all
    from Cons.IH[OF rest this Cons.prems(4)] show ?thesis .
  qed
qed

lemma firstResponse_iff_received:
  "(\<exists>resp. firstResponse Do sel reqs = Some resp) \<longleftrightarrow>
   (\<exists>k<length reqs. \<exists>j r. sel k = Received j \<and> Do j = Some r \<and> go_div (StatusCode r) 100 = 2)"
proof
  assume "\<exists>resp. firstResponse Do sel reqs = Some resp"
  then obtain resp where "firstResponse_loop Do sel 0 reqs = Some resp"
    by (auto simp: firstResponse_def)
  from firstResponse_loop_Some[OF this] show
    "\<exists>k<length reqs. \<exists>j r. sel k = Received j \<and> Do j = Some r \<and> go_div (StatusCode r) 100 = 2"
    by auto
next
  assume "\<exists>k<length reqs. \<exists>j r. sel k = Received j \<and> Do j = Some r
            \<and> go_div (StatusCode r) 100 = 2"
  then obtain k j r where
    h: "k < length reqs" "sel (0 + k) = Received j" "Do j = Some r"
       "go_div (StatusCode r) 100 = 2"
    by auto
  have "firstResponse_loop Do sel 0 reqs \<noteq> None"
  proof
    assume "firstResponse_loop Do sel 0 reqs = None"
    from firstResponse_loop_None[of Do sel 0 reqs k j r, OF this h(1,2,3)] h(4)
    show False by simp
  qed
  then show "\<exists>resp. firstResponse Do sel reqs = Some resp"
    by (auto simp: firstResponse_def)
qed

lemma feasible_started: "feasible sel n \<Longrightarrow> k < n \<Longrightarrow> sel k = Received j \<Longrightarrow> j \<le> k"
  by (auto simp: feasible_def list_all_iff split: select_event.splits)

lemma for_range_total:
  "\<forall>p\<in>set ps. \<exists>y. body p = Inr y \<Longrightarrow> \<exists>xs. for_range body ps = Inr xs"
proof (induction ps)
  case Nil
  then show ?case by simp
next
  case (Cons p ps)
  then obtain xs where "for_range body ps = Inr xs" by auto
  moreover from Cons.prems obtain y where "body p = Inr y" by auto
  ultimately show ?case by (cases y) auto
qed

lemma GetObject_reqs_total: "\<exists>reqs. GetObject_reqs lib c a co ob headers = Inr reqs"
  unfolding GetObject_reqs_def Let_def
  by (rule for_range_total) (auto simp: err_continue_def split: option.splits)

text \<open>
  C2 (as amended). The first-response dispatcher returns a 2xx response exactly when one
  of its waits, one per started sub-request, receives a 2xx response; the response it
  returns is a 2xx response that one of the sub-requests produced. When every wait
  receives the response of the sub-request just started (no wait times out), it returns a
  2xx response exactly when at least one sub-request produced one. Otherwise it returns
  nil, and \<^verbatim>\<open>GetObject\<close>, which always gets to its dispatcher, yields status 404 with nil
  body and nil headers.
\<close>

theorem firstResponse_2xx_iff_received:
  "((\<exists>resp. firstResponse Do sel reqs = Some resp) \<longleftrightarrow>
      (\<exists>k<length reqs. \<exists>j r. sel k = Received j \<and> Do j = Some r
          \<and> go_div (StatusCode r) 100 = 2))
   \<and> (feasible sel (length reqs) \<and> firstResponse Do sel reqs = Some resp \<longrightarrow>
        go_div (StatusCode resp) 100 = 2 \<and> (\<exists>j<length reqs. Do j = Some resp))
   \<and> ((\<forall>k<length reqs. sel k = Received k) \<longrightarrow>
        ((\<exists>resp. firstResponse Do sel reqs = Some resp) \<longleftrightarrow>
           (\<exists>j<length reqs. \<exists>r. Do j = Some r \<and> go_div (StatusCode r) 100 = 2)))
   \<and> (\<exists>rs. GetObject_reqs lib c a co ob headers = Inr rs \<and>
         GetObject lib c a co ob headers Do sel = Returns (read_result (firstResponse Do sel rs)) \<and>
         (firstResponse Do sel rs = None \<longrightarrow>
            GetObject lib c a co ob headers Do sel = Returns (None, None, 404)))"
proof -
  have produced: "go_div (StatusCode resp) 100 = 2 \<and> (\<exists>j<length reqs. Do j = Some resp)"
    if f: "feasible sel (length reqs)" and r: "firstResponse Do sel reqs = Some resp"
  proof -
    from r have "firstResponse_loop Do sel 0 reqs = Some resp" by (simp add: firstResponse_def)
    from firstResponse_loop_Some[OF this] obtain k j where
      h: "go_div (StatusCode resp) 100 = 2" "k < length reqs" "sel k = Received j"
         "Do j = Some resp"
      by auto
    from feasible_started[OF f h(2,3)] h(2) have "j < length reqs" by simp
    with h(1,4) show ?thesis by blast
  qed
  have in_turn: "(\<exists>resp. firstResponse Do sel reqs = Some resp) \<longleftrightarrow>
           (\<exists>j<length reqs. \<exists>r. Do j = Some r \<and> go_div (StatusCode r) 100 = 2)"
    if "\<forall>k<length reqs. sel k = Received k"
    unfolding firstResponse_iff_received using that by auto
  from GetObject_reqs_total[of lib c a co ob headers] obtain rs where
    rs: "GetObject_reqs lib c a co ob headers = Inr rs" by blast
  then have get: "GetObject lib c a co ob headers Do sel
      = Returns (read_result (firstResponse Do sel rs))"
    by (simp add: GetObject_def)
  then have nf: "firstResponse Do sel rs = None \<longrightarrow>
      GetObject lib c a co ob headers Do sel = Returns (None, None, 404)"
    by (simp add: read_result_def)
  show ?thesis
  proof (intro conjI)
    show "(\<exists>resp. firstResponse Do sel reqs = Some resp) \<longleftrightarrow>
      (\<exists>k<length reqs. \<exists>j r. sel k = Received j \<and> Do j = Some r
          \<and> go_div (StatusCode r) 100 = 2)"
      by (rule firstResponse_iff_received)
    show "feasible sel (length reqs) \<and> firstResponse Do sel reqs = Some resp \<longrightarrow>
        go_div (StatusCode resp) 100 = 2 \<and> (\<exists>j<length reqs. Do j = Some resp)"
      using produced by (intro impI) (elim conjE)
    show "(\<forall>k<length reqs. sel k = Received k) \<longrightarrow>
        ((\<exists>resp. firstResponse Do sel reqs = Some resp) \<longleftrightarrow>
           (\<exists>j<length reqs. \<exists>r. Do j = Some r \<and> go_div (StatusCode r) 100 = 2))"
      using in_turn by (intro impI)
    show "\<exists>rs. GetObject_reqs lib c a co ob headers = Inr rs \<and>
         GetObject lib c a co ob headers Do sel = Returns (read_result (firstResponse Do sel rs)) \<and>
         (firstResponse Do sel rs = None \<longrightarrow>
            GetObject lib c a co ob headers Do sel = Returns (None, None, 404))"
      using rs get nf by (intro exI[of _ rs] conjI)
  qed
qed

theorem firstResponse_2xx_iff_received_witness:
  "feasible in_turn (length [1, 2 :: nat])
   \<and> in_turn 0 = Received 0 \<and> in_turn 1 = Received 1
   \<and> firstResponse (answers [Some (reply 404), Some (reply 200)]) in_turn [1, 2 :: nat]
       = Some (reply 200)
   \<and> go_div (StatusCode (reply 200)) 100 = 2
   \<and> answers [Some (reply 404), Some (reply 200)] 1 = Some (reply 200)
   \<and> firstResponse (answers [Some (reply 404), None]) in_turn [1, 2 :: nat] = None
   \<and> GetObject example_lib (example_client [] [] [''sdb1'', ''sdb2'']) ''a'' ''c'' ''o'' []
         (answers [Some (reply 404), None]) in_turn
       = Returns (None, None, 404)"
proof -
  have f: "feasible in_turn (length [1, 2 :: nat])"
    by (simp add: feasible_def in_turn_def eval_nat_numeral)
  have r: "firstResponse (answers [Some (reply 404), Some (reply 200)]) in_turn [1, 2 :: nat]
       = Some (reply 200)"
    by (simp add: firstResponse_def example_defs go_div_def)
  have n: "firstResponse (answers [Some (reply 404), None]) in_turn [1, 2 :: nat] = None"
    by (simp add: firstResponse_def example_defs go_div_def)
  have rs: "GetObject_reqs example_lib (example_client [] [] [''sdb1'', ''sdb2''])
              ''a'' ''c'' ''o'' []
            = Inr [\<lparr>Method = ''GET'', URL = ''http://127.0.0.1:6010/sdb1/7/a/c/o'',
                     Header = [], Body = None\<rparr>,
                   \<lparr>Method = ''GET'', URL = ''http://127.0.0.1:6010/sdb2/7/a/c/o'',
                     Header = [], Body = None\<rparr>]"
    by (simp add: GetObject_reqs_def example_defs request_defs)
  have n': "firstResponse (answers [Some (reply 404), None]) in_turn
              [\<lparr>Method = ''GET'', URL = ''http://127.0.0.1:6010/sdb1/7/a/c/o'',
                 Header = [], Body = None\<rparr>,
               \<lparr>Method = ''GET'', URL = ''http://127.0.0.1:6010/sdb2/7/a/c/o'',
                 Header = [], Body = None\<rparr>] = None"
    by (simp add: firstResponse_def example_defs go_div_def)
  from firstResponse_2xx_iff_received
         [where Do = "answers [Some (reply 404), Some (reply 200)]" and sel = in_turn
            and reqs = "[1, 2 :: nat]" and resp = "reply 200"]
       f r
  have a: "go_div (StatusCode (reply 200)) 100 = 2" by blast
  from firstResponse_2xx_iff_received
         [where Do = "answers [Some (reply 404), None]" and sel = in_turn
            and reqs = "[1, 2 :: nat]" and lib = example_lib
            and c = "example_client [] [] [''sdb1'', ''sdb2'']"
            and a = "''a''" and co = "''c''" and ob = "''o''" and headers = "[]"]
       rs n'
  have g: "GetObject example_lib (example_client [] [] [''sdb1'', ''sdb2'']) ''a'' ''c'' ''o'' []
         (answers [Some (reply 404), None]) in_turn
       = Returns (None, None, 404)"
    by (auto simp: read_result_def)
  from f r n a g show ?thesis by (simp add: in_turn_def answers_def)
qed

text \<open>
  C2 as the specification words it fails: a single sub-request answers 200, but later
  than the one second of the only wait. The dispatcher returns nil although a sub-request
  produced a 2xx response, and \<^verbatim>\<open>GetObject\<close> reports 404.
\<close>

theorem firstResponse_late_2xx_is_lost:
  "feasible all_timed_out (length [1 :: nat])
   \<and> answers [Some (reply 200)] 0 = Some (reply 200)
   \<and> go_div (StatusCode (reply 200)) 100 = 2
   \<and> firstResponse (answers [Some (reply 200)]) all_timed_out [1 :: nat] = None
   \<and> GetObject example_lib (example_client [] [] [''sdb1'']) ''a'' ''c'' ''o'' []
         (answers [Some (reply 200)]) all_timed_out
       = Returns (None, None, 404)"
  by (simp add: feasible_def firstResponse_def example_defs all_timed_out_def go_div_def
        GetObject_def GetObject_reqs_def request_defs read_result_def)

section \<open>Properties of the account-scoped client\<close>

lemma go_div_2xx: "go_div code 100 = 2 \<longleftrightarrow> 200 \<le> code \<and> code < 300"
proof (cases "0 \<le> code")
  case True
  then have "go_div code 100 = code div 100" by (rule go_div_nonneg)
  then show ?thesis by auto
next
  case False
  then have "go_div code 100 = - (\<bar>code\<bar> div 100)" by (simp add: go_div_def sgn_if)
  moreover have "0 \<le> \<bar>code\<bar> div 100" by simp
  ultimately show ?thesis using False by linarith
qed

lemma status_error_Returns:
  "r = Returns code \<Longrightarrow>
   status_error r = Returns (if 200 \<le> code \<and> code < 300 then None else Some (HTTPError code))"
  by (simp add: status_error_def go_div_2xx)

lemma head_error_Returns:
  "r = Returns (h, code) \<Longrightarrow>
   \<exists>m. head_error lib r
         = Returns (m, if 200 \<le> code \<and> code < 300 then None else Some (HTTPError code))"
  by (simp add: head_error_def go_div_2xx)

lemma listing_result_Returns:
  assumes "res = Returns (r, h, code)" and "read_result resp = (r, h, code)"
  shows "\<exists>l m. listing_result lib decode res
           = Returns (l, m, if code = 200 then None else Some (HTTPError code))"
proof (cases resp)
  case None
  with assms show ?thesis by (simp add: listing_result_def read_result_def)
next
  case (Some a)
  with assms show ?thesis by (auto simp: listing_result_def read_result_def)
qed

lemma directClient_PutAccount_error:
  "PutAccount lib (ProxyDirectClient dc) (account dc) (Map2Headers lib hs) arrivals
       = Returns code \<longrightarrow>
     directClient_PutAccount lib dc hs arrivals
       = Returns (if 200 \<le> code \<and> code < 300 then None else Some (HTTPError code))"
  by (simp add: directClient_PutAccount_def status_error_Returns)

lemma directClient_PostAccount_error:
  "PostAccount lib (ProxyDirectClient dc) (account dc) (Map2Headers lib hs) arrivals
       = Returns code \<longrightarrow>
     directClient_PostAccount lib dc hs arrivals
       = Returns (if 200 \<le> code \<and> code < 300 then None else Some (HTTPError code))"
  by (simp add: directClient_PostAccount_def status_error_Returns)

lemma directClient_DeleteAccount_error:
  "DeleteAccount lib (ProxyDirectClient dc) (account dc) (Map2Headers lib hs) arrivals
       = Returns code \<longrightarrow>
     directClient_DeleteAccount lib dc hs arrivals
       = Returns (if 200 \<le> code \<and> code < 300 then None else Some (HTTPError code))"
  by (simp add: directClient_DeleteAccount_def status_error_Returns)

lemma directClient_PutContainer_error:
  "PutContainer lib (ProxyDirectClient dc) (account dc) co (Map2Headers lib hs) arrivals
       = Returns code \<longrightarrow>
     directClient_PutContainer lib dc co hs arrivals
       = Returns (if 200 \<le> code \<and> code < 300 then None else Some (HTTPError code))"
  by (simp add: directClient_PutContainer_def status_error_Returns)

lemma directClient_PostContainer_error:
  "PostContainer lib (ProxyDirectClient dc) (account dc) co (Map2Headers lib hs) arrivals
       = Returns code \<longrightarrow>
     directClient_PostContainer lib dc co hs arrivals
       = Returns (if 200 \<le> code \<and> code < 300 then None else Some (HTTPError code))"
  by (simp add: directClient_PostContainer_def status_error_Returns)

lemma directClient_DeleteContainer_error:
  "DeleteContainer lib (ProxyDirectClient dc) (account dc) co (Map2Headers lib hs) arrivals
       = Returns code \<longrightarrow>
     directClient_DeleteContainer lib dc co hs arrivals
       = Returns (if 200 \<le> code \<and> code < 300 then None else Some (HTTPError code))"
  by (simp add: directClient_DeleteContainer_def status_error_Returns)

lemma directClient_PostObject_error:
  "PostObject lib (ProxyDirectClient dc) (account dc) co ob (Map2Headers lib hs) arrivals
       = Returns code \<longrightarrow>
     directClient_PostObject lib dc co ob hs arrivals
       = Returns (if 200 \<le> code \<and> code < 300 then None else Some (HTTPError code))"
  by (simp add: directClient_PostObject_def status_error_Returns)

lemma directClient_DeleteObject_error:
  "DeleteObject lib (ProxyDirectClient dc) (account dc) co ob (Map2Headers lib hs) arrivals
       = Returns code \<longrightarrow>
     directClient_DeleteObject lib dc co ob hs arrivals
       = Returns (if 200 \<le> code \<and> code < 300 then None else Some (HTTPError code))"
  by (simp add: directClient_DeleteObject_def status_error_Returns)

lemma directClient_PutObject_error:
  "(\<exists>run. PutObject lib (ProxyDirectClient dc) (account dc) co ob (Map2Headers lib hs) arrivals
             = Inr run \<and> returned run = Returns code) \<longrightarrow>
     directClient_PutObject lib dc co ob hs arrivals
       = Returns (if 200 \<le> code \<and> code < 300 then None else Some (HTTPError code))"
  by (auto simp: directClient_PutObject_def status_error_Returns)

lemma directClient_HeadAccount_error:
  "HeadAccount lib (ProxyDirectClient dc) (account dc) (Map2Headers lib hs) Do sel
       = Returns (h, code) \<longrightarrow>
     (\<exists>m. directClient_HeadAccount lib dc hs Do sel
        = Returns (m, if 200 \<le> code \<and> code < 300 then None else Some (HTTPError code)))"
  by (simp add: directClient_HeadAccount_def head_error_Returns)

lemma directClient_HeadContainer_error:
  "HeadContainer lib (ProxyDirectClient dc) (account dc) co (Map2Headers lib hs) Do sel
       = Returns (h, code) \<longrightarrow>
     (\<exists>m. directClient_HeadContainer lib dc co hs Do sel
        = Returns (m, if 200 \<le> code \<and> code < 300 then None else Some (HTTPError code)))"
  by (simp add: directClient_HeadContainer_def head_error_Returns)

lemma directClient_HeadObject_error:
  "HeadObject lib (ProxyDirectClient dc) (account dc) co ob (Map2Headers lib hs) Do sel
       = Returns (h, code) \<longrightarrow>
     (\<exists>m. directClient_HeadObject lib dc co ob hs Do sel
        = Returns (m, if 200 \<le> code \<and> code < 300 then None else Some (HTTPError code)))"
  by (simp add: directClient_HeadObject_def head_error_Returns)

lemma directClient_GetObject_error:
  "GetObject lib (ProxyDirectClient dc) (account dc) co ob (Map2Headers lib hs) Do sel
       = Returns (r, h, code) \<longrightarrow>
     (\<exists>r' m. directClient_GetObject lib dc co ob hs Do sel
        = Returns (r', m, if 200 \<le> code \<and> code < 300 then None else Some (HTTPError code)))"
  by (simp add: directClient_GetObject_def go_div_2xx)

lemma directClient_GetAccount_error:
  "GetAccount lib (ProxyDirectClient dc) (account dc)
       (listing_options marker endMarker limit prefix delimiter) (Map2Headers lib hs) Do sel
       = Returns (r, h, code) \<longrightarrow>
     (\<exists>l m. directClient_GetAccount lib decode dc marker endMarker limit prefix delimiter hs
                Do sel
        = Returns (l, m, if code = 200 then None else Some (HTTPError code)))"
proof
  assume a: "GetAccount lib (ProxyDirectClient dc) (account dc)
       (listing_options marker endMarker limit prefix delimiter) (Map2Headers lib hs) Do sel
       = Returns (r, h, code)"
  then obtain resp where "read_result resp = (r, h, code)"
    by (auto simp: GetAccount_def split: sum.splits result.splits)
  then show "\<exists>l m. directClient_GetAccount lib decode dc marker endMarker limit prefix delimiter hs
                Do sel
        = Returns (l, m, if code = 200 then None else Some (HTTPError code))"
    unfolding directClient_GetAccount_def by (rule listing_result_Returns[OF a])
qed

lemma directClient_GetContainer_error:
  "GetContainer lib (ProxyDirectClient dc) (account dc) co
       (listing_options marker endMarker limit prefix delimiter) (Map2Headers lib hs) Do sel
       = Returns (r, h, code) \<longrightarrow>
     (\<exists>l m. directClient_GetContainer lib decode dc co marker endMarker limit prefix delimiter hs
                Do sel
        = Returns (l, m, if code = 200 then None else Some (HTTPError code)))"
proof
  assume a: "GetContainer lib (ProxyDirectClient dc) (account dc) co
       (listing_options marker endMarker limit prefix delimiter) (Map2Headers lib hs) Do sel
       = Returns (r, h, code)"
  then obtain resp where "read_result resp = (r, h, code)"
    by (auto simp: GetContainer_def split: sum.splits result.splits)
  then show "\<exists>l m. directClient_GetContainer lib decode dc co marker endMarker limit prefix delimiter hs
                Do sel
        = Returns (l, m, if code = 200 then None else Some (HTTPError code))"
    unfolding directClient_GetContainer_def by (rule listing_result_Returns[OF a])
qed

lemmas facade_errors =
  directClient_PutAccount_error
  directClient_PostAccount_error
  directClient_DeleteAccount_error
  directClient_PutContainer_error
  directClient_PostContainer_error
  directClient_DeleteContainer_error
  directClient_PostObject_error
  directClient_DeleteObject_error
  directClient_PutObject_error
  directClient_HeadAccount_error
  directClient_HeadContainer_error
  directClient_HeadObject_error
  directClient_GetObject_error
  directClient_GetAccount_error
  directClient_GetContainer_error

text \<open>
  C8 (as amended). Every mutating method, every \<^verbatim>\<open>Head\<close> method and \<^verbatim>\<open>GetObject\<close> of the
  account-scoped client returns a nil error exactly when the status code of the underlying
  operation is in the 2xx class; the two listing methods \<^verbatim>\<open>GetAccount\<close> and
  \<^verbatim>\<open>GetContainer\<close> return a nil error exactly when that status code is 200. Whenever a
  method returns an error, the error is an \<^verbatim>\<open>HTTPError\<close> carrying exactly the status code
  that the underlying operation returned.
\<close>

theorem directClient_error_iff_status:
  "(PutAccount lib (ProxyDirectClient dc) (account dc) (Map2Headers lib hs) arrivals
       = Returns code \<longrightarrow>
     directClient_PutAccount lib dc hs arrivals
       = Returns (if 200 \<le> code \<and> code < 300 then None else Some (HTTPError code)))
   \<and> (PostAccount lib (ProxyDirectClient dc) (account dc) (Map2Headers lib hs) arrivals
       = Returns code \<longrightarrow>
     directClient_PostAccount lib dc hs arrivals
       = Returns (if 200 \<le> code \<and> code < 300 then None else Some (HTTPError code)))
   \<and> (DeleteAccount lib (ProxyDirectClient dc) (account dc) (Map2Headers lib hs) arrivals
       = Returns code \<longrightarrow>
     directClient_DeleteAccount lib dc hs arrivals
       = Returns (if 200 \<le> code \<and> code < 300 then None else Some (HTTPError code)))
   \<and> (PutContainer lib (ProxyDirectClient dc) (account dc) co (Map2Headers lib hs) arrivals
       = Returns code \<longrightarrow>
     directClient_PutContainer lib dc co hs arrivals
       = Returns (if 200 \<le> code \<and> code < 300 then None else Some (HTTPError code)))
   \<and> (PostContainer lib (ProxyDirectClient dc) (account dc) co (Map2Headers lib hs) arrivals
       = Returns code \<longrightarrow>
     directClient_PostContainer lib dc co hs arrivals
       = Returns (if 200 \<le> code \<and> code < 300 then None else Some (HTTPError code)))
   \<and> (DeleteContainer lib (ProxyDirectClient dc) (account dc) co (Map2Headers lib hs) arrivals
       = Returns code \<longrightarrow>
     directClient_DeleteContainer lib dc co hs arrivals
       = Returns (if 200 \<le> code \<and> code < 300 then None else Some (HTTPError code)))
   \<and> (PostObject lib (ProxyDirectClient dc) (account dc) co ob (Map2Headers lib hs) arrivals
       = Returns code \<longrightarrow>
     directClient_PostObject lib dc co ob hs arrivals
       = Returns (if 200 \<le> code \<and> code < 300 then None else Some (HTTPError code)))
   \<and> (DeleteObject lib (ProxyDirectClient dc) (account dc) co ob (Map2Headers lib hs) arrivals
       = Returns code \<longrightarrow>
     directClient_DeleteObject lib dc co ob hs arrivals
       = Returns (if 200 \<le> code \<and> code < 300 then None else Some (HTTPError code)))
   \<and> ((\<exists>run. PutObject lib (ProxyDirectClient dc) (account dc) co ob (Map2Headers lib hs) arrivals
             = Inr run \<and> returned run = Returns code) \<longrightarrow>
     directClient_PutObject lib dc co ob hs arrivals
       = Returns (if 200 \<le> code \<and> code < 300 then None else Some (HTTPError code)))
   \<and> (HeadAccount lib (ProxyDirectClient dc) (account dc) (Map2Headers lib hs) Do sel
       = Returns (h, code) \<longrightarrow>
     (\<exists>m. directClient_HeadAccount lib dc hs Do sel
        = Returns (m, if 200 \<le> code \<and> code < 300 then None else Some (HTTPError code))))
   \<and> (HeadContainer lib (ProxyDirectClient dc) (account dc) co (Map2Headers lib hs) Do sel
       = Returns (h, code) \<longrightarrow>
     (\<exists>m. directClient_HeadContainer lib dc co hs Do sel
        = Returns (m, if 200 \<le> code \<and> code < 300 then None else Some (HTTPError code))))
   \<and> (HeadObject lib (ProxyDirectClient dc) (account dc) co ob (Map2Headers lib hs) Do sel
       = Returns (h, code) \<longrightarrow>
     (\<exists>m. directClient_HeadObject lib dc co ob hs Do sel
        = Returns (m, if 200 \<le> code \<and> code < 300 then None else Some (HTTPError code))))
   \<and> (GetObject lib (ProxyDirectClient dc) (account dc) co ob (Map2Headers lib hs) Do sel
       = Returns (r, h, code) \<longrightarrow>
     (\<exists>r' m. directClient_GetObject lib dc co ob hs Do sel
        = Returns (r', m, if 200 \<le> code \<and> code < 300 then None else Some (HTTPError code))))
   \<and> (GetAccount lib (ProxyDirectClient dc) (account dc)
       (listing_options marker endMarker limit prefix delimiter) (Map2Headers lib hs) Do sel
       = Returns (r, h, code) \<longrightarrow>
     (\<exists>l m. directClient_GetAccount lib decode dc marker endMarker limit prefix delimiter hs
                Do sel
        = Returns (l, m, if code = 200 then None else Some (HTTPError code))))
   \<and> (GetContainer lib (ProxyDirectClient dc) (account dc) co
       (listing_options marker endMarker limit prefix delimiter) (Map2Headers lib hs) Do sel
       = Returns (r, h, code) \<longrightarrow>
     (\<exists>l m. directClient_GetContainer lib decode dc co marker endMarker limit prefix delimiter hs
                Do sel
        = Returns (l, m, if code = 200 then None else Some (HTTPError code))))"
  by (intro conjI) (fact facade_errors)+

lemmas facade_example_defs =
  example_defs three_nodes_def example_directClient_def example_decode_def request_defs
  quorumResponse_def quorum_dispatch_built first_dispatch_built quorum_of_div go_div_def
  firstResponse_def read_result_def head_result_def listing_options_def mkquery_def Let_def

theorem directClient_error_iff_status_witness:
  "PutAccount example_lib (ProxyDirectClient (example_directClient three_nodes three_nodes three_nodes))
        (account (example_directClient three_nodes three_nodes three_nodes))
        (Map2Headers example_lib []) [Some (reply 200), Some (reply 200), Some (reply 200)]
      = Returns 200
   \<and> directClient_PutAccount example_lib (example_directClient three_nodes three_nodes three_nodes) []
        [Some (reply 200), Some (reply 200), Some (reply 200)]
      = Returns None
   \<and> PostAccount example_lib (ProxyDirectClient (example_directClient three_nodes three_nodes three_nodes))
        (account (example_directClient three_nodes three_nodes three_nodes))
        (Map2Headers example_lib []) [Some (reply 200), Some (reply 200), Some (reply 200)]
      = Returns 200
   \<and> directClient_PostAccount example_lib (example_directClient three_nodes three_nodes three_nodes) []
        [Some (reply 200), Some (reply 200), Some (reply 200)]
      = Returns None
   \<and> DeleteAccount example_lib (ProxyDirectClient (example_directClient three_nodes three_nodes three_nodes))
        (account (example_directClient three_nodes three_nodes three_nodes))
        (Map2Headers example_lib []) [Some (reply 200), Some (reply 200), Some (reply 200)]
      = Returns 200
   \<and> directClient_DeleteAccount example_lib (example_directClient three_nodes three_nodes three_nodes) []
        [Some (reply 200), Some (reply 200), Some (reply 200)]
      = Returns None
   \<and> PutContainer example_lib (ProxyDirectClient (example_directClient three_nodes three_nodes three_nodes))
        (account (example_directClient three_nodes three_nodes three_nodes)) ''c''
        (Map2Headers example_lib []) [Some (reply 200), Some (reply 200), Some (reply 200)]
      = Returns 200
   \<and> directClient_PutContainer example_lib (example_directClient three_nodes three_nodes three_nodes) ''c'' []
        [Some (reply 200), Some (reply 200), Some (reply 200)]
      = Returns None
   \<and> PostContainer example_lib (ProxyDirectClient (example_directClient three_nodes three_nodes three_nodes))
        (account (example_directClient three_nodes three_nodes three_nodes)) ''c''
        (Map2Headers example_lib []) [Some (reply 200), Some (reply 200), Some (reply 200)]
      = Returns 200
   \<and> directClient_PostContainer example_lib (example_directClient three_nodes three_nodes three_nodes) ''c'' []
        [Some (reply 200), Some (reply 200), Some (reply 200)]
      = Returns None
   \<and> DeleteContainer example_lib (ProxyDirectClient (example_directClient three_nodes three_nodes three_nodes))
        (account (example_directClient three_nodes three_nodes three_nodes)) ''c''
        (Map2Headers example_lib []) [Some (reply 200), Some (reply 200), Some (reply 200)]
      = Returns 200
   \<and> directClient_DeleteContainer example_lib (example_directClient three_nodes three_nodes three_nodes) ''c'' []
        [Some (reply 200), Some (reply 200), Some (reply 200)]
      = Returns None
   \<and> PostObject example_lib (ProxyDirectClient (example_directClient three_nodes three_nodes three_nodes))
        (account (example_directClient three_nodes three_nodes three_nodes)) ''c'' ''o''
        (Map2Headers example_lib []) [Some (reply 200), Some (reply 200), Some (reply 200)]
      = Returns 200
   \<and> directClient_PostObject example_lib (example_directClient three_nodes three_nodes three_nodes) ''c'' ''o'' []
        [Some (reply 200), Some (reply 200), Some (reply 200)]
      = Returns None
   \<and> DeleteObject example_lib (ProxyDirectClient (example_directClient three_nodes three_nodes three_nodes))
        (account (example_directClient three_nodes three_nodes three_nodes)) ''c'' ''o''
        (Map2Headers example_lib []) [Some (reply 200), Some (reply 200), Some (reply 200)]
      = Returns 200
   \<and> directClient_DeleteObject example_lib (example_directClient three_nodes three_nodes three_nodes) ''c'' ''o'' []
        [Some (reply 200), Some (reply 200), Some (reply 200)]
      = Returns None
   \<and> (\<exists>run. PutObject example_lib (ProxyDirectClient (example_directClient three_nodes three_nodes three_nodes))
        (account (example_directClient three_nodes three_nodes three_nodes)) ''c'' ''o''
        (Map2Headers example_lib []) [Some (reply 200), Some (reply 200), Some (reply 200)]
      = Inr run \<and> returned run = Returns 200)
   \<and> directClient_PutObject example_lib (example_directClient three_nodes three_nodes three_nodes) ''c'' ''o'' []
        [Some (reply 200), Some (reply 200), Some (reply 200)]
      = Returns None
   \<and> HeadAccount example_lib (ProxyDirectClient (example_directClient three_nodes three_nodes three_nodes))
        (account (example_directClient three_nodes three_nodes three_nodes))
        (Map2Headers example_lib []) (answers [Some (reply 200)]) in_turn
      = Returns (Some [], 200)
   \<and> (\<exists>m. directClient_HeadAccount example_lib (example_directClient three_nodes three_nodes three_nodes) []
        (answers [Some (reply 200)]) in_turn
      = Returns (m, None))
   \<and> HeadContainer example_lib (ProxyDirectClient (example_directClient three_nodes three_nodes three_nodes))
        (account (example_directClient three_nodes three_nodes three_nodes)) ''c''
        (Map2Headers example_lib []) (answers [Some (reply 200)]) in_turn
      = Returns (Some [], 200)
   \<and> (\<exists>m. directClient_HeadContainer example_lib (example_directClient three_nodes three_nodes three_nodes) ''c'' []
        (answers [Some (reply 200)]) in_turn
      = Returns (m, None))
   \<and> HeadObject example_lib (ProxyDirectClient (example_directClient three_nodes three_nodes three_nodes))
        (account (example_directClient three_nodes three_nodes three_nodes)) ''c'' ''o''
        (Map2Headers example_lib []) (answers [Some (reply 200)]) in_turn
      = Returns (Some [], 200)
   \<and> (\<exists>m. directClient_HeadObject example_lib (example_directClient three_nodes three_nodes three_nodes) ''c'' ''o'' []
        (answers [Some (reply 200)]) in_turn
      = Returns (m, None))
   \<and> GetObject example_lib (ProxyDirectClient (example_directClient three_nodes three_nodes three_nodes))
        (account (example_directClient three_nodes three_nodes three_nodes)) ''c'' ''o''
        (Map2Headers example_lib []) (answers [Some (reply 200)]) in_turn
      = Returns (Some '''', Some [], 200)
   \<and> (\<exists>r' m. directClient_GetObject example_lib (example_directClient three_nodes three_nodes three_nodes) ''c'' ''o'' []
        (answers [Some (reply 200)]) in_turn
      = Returns (r', m, None))
   \<and> GetAccount example_lib (ProxyDirectClient (example_directClient three_nodes three_nodes three_nodes))
        (account (example_directClient three_nodes three_nodes three_nodes))
        (listing_options '''' '''' 0 '''' '''') (Map2Headers example_lib []) (answers [Some (reply 200)]) in_turn
      = Returns (Some '''', Some [], 200)
   \<and> (\<exists>l m. directClient_GetAccount example_lib example_decode (example_directClient three_nodes three_nodes three_nodes)
        '''' '''' 0 '''' '''' [] (answers [Some (reply 200)]) in_turn
      = Returns (l, m, None))
   \<and> GetContainer example_lib (ProxyDirectClient (example_directClient three_nodes three_nodes three_nodes))
        (account (example_directClient three_nodes three_nodes three_nodes)) ''c''
        (listing_options '''' '''' 0 '''' '''') (Map2Headers example_lib []) (answers [Some (reply 200)]) in_turn
      = Returns (Some '''', Some [], 200)
   \<and> (\<exists>l m. directClient_GetContainer example_lib example_decode (example_directClient three_nodes three_nodes three_nodes) ''c''
        '''' '''' 0 '''' '''' [] (answers [Some (reply 200)]) in_turn
      = Returns (l, m, None))"
proof -
  note T = directClient_error_iff_status
    [where lib = example_lib
       and dc = "example_directClient three_nodes three_nodes three_nodes"
       and co = "''c''" and ob = "''o''" and hs = "[]"
       and arrivals = "[Some (reply 200), Some (reply 200), Some (reply 200)]"
       and code = 200 and Do = "answers [Some (reply 200)]" and sel = in_turn
       and h = "Some []" and r = "Some ''''"
       and marker = "''''" and endMarker = "''''" and limit = 0 and prefix = "''''"
       and delimiter = "''''" and decode = example_decode]
  have h0: "PutAccount example_lib (ProxyDirectClient (example_directClient three_nodes three_nodes three_nodes))
        (account (example_directClient three_nodes three_nodes three_nodes))
        (Map2Headers example_lib []) [Some (reply 200), Some (reply 200), Some (reply 200)]
      = Returns 200"
    by (simp add: PutAccount_def PutAccount_reqs_def facade_example_defs)
  from T[THEN conjunct1, THEN mp, OF h0]
  have c0: "directClient_PutAccount example_lib (example_directClient three_nodes three_nodes three_nodes) []
        [Some (reply 200), Some (reply 200), Some (reply 200)]
      = Returns None"
    by simp
  have h1: "PostAccount example_lib (ProxyDirectClient (example_directClient three_nodes three_nodes three_nodes))
        (account (example_directClient three_nodes three_nodes three_nodes))
        (Map2Headers example_lib []) [Some (reply 200), Some (reply 200), Some (reply 200)]
      = Returns 200"
    by (simp add: PostAccount_def PostAccount_reqs_def facade_example_defs)
  from T[THEN conjunct2, THEN conjunct1, THEN mp, OF h1]
  have c1: "directClient_PostAccount example_lib (example_directClient three_nodes three_nodes three_nodes) []
        [Some (reply 200), Some (reply 200), Some (reply 200)]
      = Returns None"
    by simp
  have h2: "DeleteAccount example_lib (ProxyDirectClient (example_directClient three_nodes three_nodes three_nodes))
        (account (example_directClient three_nodes three_nodes three_nodes))
        (Map2Headers example_lib []) [Some (reply 200), Some (reply 200), Some (reply 200)]
      = Returns 200"
    by (simp add: DeleteAccount_def DeleteAccount_reqs_def facade_example_defs)
  from T[THEN conjunct2, THEN conjunct2, THEN conjunct1, THEN mp, OF h2]
  have c2: "directClient_DeleteAccount example_lib (example_directClient three_nodes three_nodes three_nodes) []
        [Some (reply 200), Some (reply 200), Some (reply 200)]
      = Returns None"
    by simp
  have h3: "PutContainer example_lib (ProxyDirectClient (example_directClient three_nodes three_nodes three_nodes))
        (account (example_directClient three_nodes three_nodes three_nodes)) ''c''
        (Map2Headers example_lib []) [Some (reply 200), Some (reply 200), Some (reply 200)]
      = Returns 200"
    by (simp add: PutContainer_def PutContainer_reqs_def facade_example_defs)
  from T[THEN conjunct2, THEN conjunct2, THEN conjunct2, THEN conjunct1, THEN mp, OF h3]
  have c3: "directClient_PutContainer example_lib (example_directClient three_nodes three_nodes three_nodes) ''c'' []
        [Some (reply 200), Some (reply 200), Some (reply 200)]
      = Returns None"
    by simp
  have h4: "PostContainer example_lib (ProxyDirectClient (example_directClient three_nodes three_nodes three_nodes))
        (account (example_directClient three_nodes three_nodes three_nodes)) ''c''
        (Map2Headers example_lib []) [Some (reply 200), Some (reply 200), Some (reply 200)]
      = Returns 200"
    by (simp add: PostContainer_def PostContainer_reqs_def facade_example_defs)
  from T[THEN conjunct2, THEN conjunct2, THEN conjunct2, THEN conjunct2, THEN conjunct1, THEN mp, OF h4]
  have c4: "directClient_PostContainer example_lib (example_directClient three_nodes three_nodes three_nodes) ''c'' []
        [Some (reply 200), Some (reply 200), Some (reply 200)]
      = Returns None"
    by simp
  have h5: "DeleteContainer example_lib (ProxyDirectClient (example_directClient three_nodes three_nodes three_nodes))
        (account (example_directClient three_nodes three_nodes three_nodes)) ''c''
        (Map2Headers example_lib []) [Some (reply 200), Some (reply 200), Some (reply 200)]
      = Returns 200"
    by (simp add: DeleteContainer_def DeleteContainer_reqs_def facade_example_defs)
  from T[THEN conjunct2, THEN conjunct2, THEN conjunct2, THEN conjunct2, THEN conjunct2, THEN conjunct1, THEN mp, OF h5]
  have c5: "directClient_DeleteContainer example_lib (example_directClient three_nodes three_nodes three_nodes) ''c'' []
        [Some (reply 200), Some (reply 200), Some (reply 200)]
      = Returns None"
    by simp
  have h6: "PostObject example_lib (ProxyDirectClient (example_directClient three_nodes three_nodes three_nodes))
        (account (example_directClient three_nodes three_nodes three_nodes)) ''c'' ''o''
        (Map2Headers example_lib []) [Some (reply 200), Some (reply 200), Some (reply 200)]
      = Returns 200"
    by (simp add: PostObject_def PostObject_reqs_def facade_example_defs)
  from T[THEN conjunct2, THEN conjunct2, THEN conjunct2, THEN conjunct2, THEN conjunct2, THEN conjunct2, THEN conjunct1, THEN mp, OF h6]
  have c6: "directClient_PostObject example_lib (example_directClient three_nodes three_nodes three_nodes) ''c'' ''o'' []
        [Some (reply 200), Some (reply 200), Some (reply 200)]
      = Returns None"
    by simp
  have h7: "DeleteObject example_lib (ProxyDirectClient (example_directClient three_nodes three_nodes three_nodes))
        (account (example_directClient three_nodes three_nodes three_nodes)) ''c'' ''o''
        (Map2Headers example_lib []) [Some (reply 200), Some (reply 200), Some (reply 200)]
      = Returns 200"
    by (simp add: DeleteObject_def DeleteObject_reqs_def facade_example_defs)
  from T[THEN conjunct2, THEN conjunct2, THEN conjunct2, THEN conjunct2, THEN conjunct2, THEN conjunct2, THEN conjunct2, THEN conjunct1, THEN mp, OF h7]
  have c7: "directClient_DeleteObject example_lib (example_directClient three_nodes three_nodes three_nodes) ''c'' ''o'' []
        [Some (reply 200), Some (reply 200), Some (reply 200)]
      = Returns None"
    by simp
  have h8: "(\<exists>run. PutObject example_lib (ProxyDirectClient (example_directClient three_nodes three_nodes three_nodes))
        (account (example_directClient three_nodes three_nodes three_nodes)) ''c'' ''o''
        (Map2Headers example_lib []) [Some (reply 200), Some (reply 200), Some (reply 200)]
      = Inr run \<and> returned run = Returns 200)"
    by (simp add: PutObject_def PutObject_reqs_def copy_goroutine_def facade_example_defs)
  from T[THEN conjunct2, THEN conjunct2, THEN conjunct2, THEN conjunct2, THEN conjunct2, THEN conjunct2, THEN conjunct2, THEN conjunct2, THEN conjunct1, THEN mp, OF h8]
  have c8: "directClient_PutObject example_lib (example_directClient three_nodes three_nodes three_nodes) ''c'' ''o'' []
        [Some (reply 200), Some (reply 200), Some (reply 200)]
      = Returns None"
    by simp
  have h9: "HeadAccount example_lib (ProxyDirectClient (example_directClient three_nodes three_nodes three_nodes))
        (account (example_directClient three_nodes three_nodes three_nodes))
        (Map2Headers example_lib []) (answers [Some (reply 200)]) in_turn
      = Returns (Some [], 200)"
    by (simp add: HeadAccount_def HeadAccount_reqs_def facade_example_defs)
  from T[THEN conjunct2, THEN conjunct2, THEN conjunct2, THEN conjunct2, THEN conjunct2, THEN conjunct2, THEN conjunct2, THEN conjunct2, THEN conjunct2, THEN conjunct1, THEN mp, OF h9]
  have c9: "(\<exists>m. directClient_HeadAccount example_lib (example_directClient three_nodes three_nodes three_nodes) []
        (answers [Some (reply 200)]) in_turn
      = Returns (m, None))"
    by simp
  have h10: "HeadContainer example_lib (ProxyDirectClient (example_directClient three_nodes three_nodes three_nodes))
        (account (example_directClient three_nodes three_nodes three_nodes)) ''c''
        (Map2Headers example_lib []) (answers [Some (reply 200)]) in_turn
      = Returns (Some [], 200)"
    by (simp add: HeadContainer_def HeadContainer_reqs_def facade_example_defs)
  from T[THEN conjunct2, THEN conjunct2, THEN conjunct2, THEN conjunct2, THEN conjunct2, THEN conjunct2, THEN conjunct2, THEN conjunct2, THEN conjunct2, THEN conjunct2, THEN conjunct1, THEN mp, OF h10]
  have c10: "(\<exists>m. directClient_HeadContainer example_lib (example_directClient three_nodes three_nodes three_nodes) ''c'' []
        (answers [Some (reply 200)]) in_turn
      = Returns (m, None))"
    by simp
  have h11: "HeadObject example_lib (ProxyDirectClient (example_directClient three_nodes three_nodes three_nodes))
        (account (example_directClient three_nodes three_nodes three_nodes)) ''c'' ''o''
        (Map2Headers example_lib []) (answers [Some (reply 200)]) in_turn
      = Returns (Some [], 200)"
    by (simp add: HeadObject_def HeadObject_reqs_def facade_example_defs)
  from T[THEN conjunct2, THEN conjunct2, THEN conjunct2, THEN conjunct2, THEN conjunct2, THEN conjunct2, THEN conjunct2, THEN conjunct2, THEN conjunct2, THEN conjunct2, THEN conjunct2, THEN conjunct1, THEN mp, OF h11]
  have c11: "(\<exists>m. directClient_HeadObject example_lib (example_directClient three_nodes three_nodes three_nodes) ''c'' ''o'' []
        (answers [Some (reply 200)]) in_turn
      = Returns (m, None))"
    by simp
  have h12: "GetObject example_lib (ProxyDirectClient (example_directClient three_nodes three_nodes three_nodes))
        (account (example_directClient three_nodes three_nodes three_nodes)) ''c'' ''o''
        (Map2Headers example_lib []) (answers [Some (reply 200)]) in_turn
      = Returns (Some '''', Some [], 200)"
    by (simp add: GetObject_def GetObject_reqs_def facade_example_defs)
  from T[THEN conjunct2, THEN conjunct2, THEN conjunct2, THEN conjunct2, THEN conjunct2, THEN conjunct2, THEN conjunct2, THEN conjunct2, THEN conjunct2, THEN conjunct2, THEN conjunct2, THEN conjunct2, THEN conjunct1, THEN mp, OF h12]
  have c12: "(\<exists>r' m. directClient_GetObject example_lib (example_directClient three_nodes three_nodes three_nodes) ''c'' ''o'' []
        (answers [Some (reply 200)]) in_turn
      = Returns (r', m, None))"
    by simp
  have h13: "GetAccount example_lib (ProxyDirectClient (example_directClient three_nodes three_nodes three_nodes))
        (account (example_directClient three_nodes three_nodes three_nodes))
        (listing_options '''' '''' 0 '''' '''') (Map2Headers example_lib []) (answers [Some (reply 200)]) in_turn
      = Returns (Some '''', Some [], 200)"
    by (simp add: GetAccount_def GetAccount_reqs_def facade_example_defs)
  from T[THEN conjunct2, THEN conjunct2, THEN conjunct2, THEN conjunct2, THEN conjunct2, THEN conjunct2, THEN conjunct2, THEN conjunct2, THEN conjunct2, THEN conjunct2, THEN conjunct2, THEN conjunct2, THEN conjunct2, THEN conjunct1, THEN mp, OF h13]
  have c13: "(\<exists>l m. directClient_GetAccount example_lib example_decode (example_directClient three_nodes three_nodes three_nodes)
        '''' '''' 0 '''' '''' [] (answers [Some (reply 200)]) in_turn
      = Returns (l, m, None))"
    by simp
  have h14: "GetContainer example_lib (ProxyDirectClient (example_directClient three_nodes three_nodes three_nodes))
        (account (example_directClient three_nodes three_nodes three_nodes)) ''c''
        (listing_options '''' '''' 0 '''' '''') (Map2Headers example_lib []) (answers [Some (reply 200)]) in_turn
      = Returns (Some '''', Some [], 200)"
    by (simp add: GetContainer_def GetContainer_reqs_def facade_example_defs)
  from T[THEN conjunct2, THEN conjunct2, THEN conjunct2, THEN conjunct2, THEN conjunct2, THEN conjunct2, THEN conjunct2, THEN conjunct2, THEN conjunct2, THEN conjunct2, THEN conjunct2, THEN conjunct2, THEN conjunct2, THEN conjunct2, THEN mp, OF h14]
  have c14: "(\<exists>l m. directClient_GetContainer example_lib example_decode (example_directClient three_nodes three_nodes three_nodes) ''c''
        '''' '''' 0 '''' '''' [] (answers [Some (reply 200)]) in_turn
      = Returns (l, m, None))"
    by simp
  from h0 c0 h1 c1 h2 c2 h3 c3 h4 c4 h5 c5 h6 c6 h7 c7 h8 c8 h9 c9 h10 c10 h11 c11 h12 c12 h13 c13 h14 c14
  show ?thesis by (intro conjI)
qed

text \<open>
  C8 as the specification words it fails for the listing methods: the container server
  answers 204, a status of the 2xx class, and \<^verbatim>\<open>GetContainer\<close> of the account-scoped
  client returns the error \<^verbatim>\<open>HTTPError(204)\<close>.
\<close>

theorem directClient_GetContainer_204_is_error:
  "GetContainer example_lib (ProxyDirectClient (example_directClient [] [''sdb1''] []))
       (account (example_directClient [] [''sdb1''] [])) ''c''
       (listing_options '''' '''' 0 '''' '''') (Map2Headers example_lib [])
       (answers [Some (reply 204)]) in_turn
     = Returns (Some '''', Some [], 204)
   \<and> go_div 204 100 = 2
   \<and> directClient_GetContainer example_lib example_decode
       (example_directClient [] [''sdb1''] []) ''c'' '''' '''' 0 '''' '''' []
       (answers [Some (reply 204)]) in_turn
     = Returns (None, None, Some (HTTPError 204))"
  by (simp add: directClient_GetContainer_def GetContainer_def GetContainer_reqs_def
        listing_result_def facade_example_defs)

section \<open>Properties of the request builders\<close>

lemma Header_Set_lookup:
  "map_of (Request.Header (Header_Set lib key v req)) k =
     (if k = CanonicalMIMEHeaderKey lib key then Some [v] else map_of (Request.Header req) k)"
  by (simp add: Header_Set_def update_conv')

lemma Header_Set_fields [simp]:
  "Method (Header_Set lib key v req) = Method req"
  "URL (Header_Set lib key v req) = URL req"
  "Request.Body (Header_Set lib key v req) = Request.Body req"
  by (simp_all add: Header_Set_def)


lemma fold_Header_Set_fields:
  "Method (fold (\<lambda>key. Header_Set lib key (f key)) ks req) = Method req \<and>
   URL (fold (\<lambda>key. Header_Set lib key (f key)) ks req) = URL req \<and>
   Request.Body (fold (\<lambda>key. Header_Set lib key (f key)) ks req) = Request.Body req"
  by (induction ks arbitrary: req) simp_all

lemma copy_headers_fields [simp]:
  "Method (copy_headers lib headers req) = Method req"
  "URL (copy_headers lib headers req) = URL req"
  "Request.Body (copy_headers lib headers req) = Request.Body req"
  by (simp_all add: copy_headers_def fold_Header_Set_fields)



subsection \<open>The loop over the devices\<close>

lemma for_range_Inr:
  "for_range body ps = Inr xs \<Longrightarrow>
   list_all2 (\<lambda>x p. body p = Inr (Some x)) xs (filter (\<lambda>p. body p \<noteq> Inr None) ps)"
proof (induction ps arbitrary: xs)
  case Nil
  then show ?case by simp
next
  case (Cons p ps)
  show ?case
  proof (cases "body p")
    case (Inl e)
    with Cons.prems show ?thesis by simp
  next
    case (Inr y)
    show ?thesis
    proof (cases y)
      case None
      with Inr Cons show ?thesis by simp
    next
      case (Some x)
      with Inr Cons.prems obtain xs' where
        xs': "for_range body ps = Inr xs'" "xs = x # xs'"
        by (auto split: sum.splits)
      from Cons.IH[OF xs'(1)] Inr Some xs'(2) show ?thesis by simp
    qed
  qed
qed

lemma for_range_all:
  assumes "for_range body ps = Inr xs"
    and "\<And>p x. p \<in> set ps \<Longrightarrow> body p = Inr (Some x) \<Longrightarrow> P x p"
    and "\<And>p. p \<in> set ps \<Longrightarrow> body p \<noteq> Inr None"
  shows "list_all2 P xs ps"
proof -
  have "filter (\<lambda>p. body p \<noteq> Inr None) ps = ps"
    using assms(3) by (simp add: filter_id_conv)
  with for_range_Inr[OF assms(1)] have "list_all2 (\<lambda>x p. body p = Inr (Some x)) xs ps"
    by simp
  then show ?thesis
    using assms(2) by (auto simp: list_all2_conv_all_nth)
qed

lemma for_range_filter:
  assumes "for_range body ps = Inr xs"
    and "\<And>p x. p \<in> set ps \<Longrightarrow> body p = Inr (Some x) \<Longrightarrow> P x p"
    and "\<And>p. p \<in> set ps \<Longrightarrow> body p = Inr None \<longleftrightarrow> \<not> ok p"
  shows "list_all2 P xs (filter ok ps)"
proof -
  have "filter (\<lambda>p. body p \<noteq> Inr None) ps = filter ok ps"
    using assms(3) by (auto intro: filter_cong)
  with for_range_Inr[OF assms(1)]
  have l: "list_all2 (\<lambda>x p. body p = Inr (Some x)) xs (filter ok ps)"
    by simp
  have "\<And>i. i < length (filter ok ps) \<Longrightarrow> filter ok ps ! i \<in> set ps"
    using nth_mem by fastforce
  with l show ?thesis
    using assms(2) by (auto simp: list_all2_conv_all_nth)
qed

subsection \<open>Placement headers\<close>

lemma set_placement_Inr:
  assumes "set_placement lib parent pp pds i req = Inr req'"
    and "distinct (map (CanonicalMIMEHeaderKey lib)
           [''X-'' @ parent @ ''-Partition'', ''X-'' @ parent @ ''-Host'',
            ''X-'' @ parent @ ''-Device''])"
  shows "i < length pds \<and> carries_placement lib parent pp (pds ! i) req'
         \<and> Method req' = Method req \<and> URL req' = URL req
         \<and> Request.Body req' = Request.Body req"
  using assms
  by (auto simp: set_placement_def carries_placement_def Header_Set_lookup Let_def
           split: if_splits)


lemma carries_placement_Header_Set:
  assumes "carries_placement lib parent pp d req"
    and "CanonicalMIMEHeaderKey lib key \<notin> CanonicalMIMEHeaderKey lib `
           {''X-'' @ parent @ ''-Partition'', ''X-'' @ parent @ ''-Host'',
            ''X-'' @ parent @ ''-Device''}"
  shows "carries_placement lib parent pp d (Header_Set lib key v req)"
  using assms by (auto simp: carries_placement_def Header_Set_lookup)

lemma account_keys_distinct:
  "distinct (map (CanonicalMIMEHeaderKey lib) account_keys) \<Longrightarrow>
   distinct (map (CanonicalMIMEHeaderKey lib)
     [''X-'' @ ''Account'' @ ''-Partition'', ''X-'' @ ''Account'' @ ''-Host'',
      ''X-'' @ ''Account'' @ ''-Device''])"
  by (simp add: account_keys_def)

lemma container_keys_distinct:
  "distinct (map (CanonicalMIMEHeaderKey lib) container_keys) \<Longrightarrow>
   distinct (map (CanonicalMIMEHeaderKey lib)
     [''X-'' @ ''Container'' @ ''-Partition'', ''X-'' @ ''Container'' @ ''-Host'',
      ''X-'' @ ''Container'' @ ''-Device''])"
  by (simp add: container_keys_def object_keys_def)

lemma container_keys_Expect:
  "distinct (map (CanonicalMIMEHeaderKey lib) container_keys) \<Longrightarrow>
   CanonicalMIMEHeaderKey lib ''Expect'' \<notin> CanonicalMIMEHeaderKey lib `
     {''X-'' @ ''Container'' @ ''-Partition'', ''X-'' @ ''Container'' @ ''-Host'',
      ''X-'' @ ''Container'' @ ''-Device''}"
  by (auto simp: container_keys_def object_keys_def)

lemma PutContainer_reqs_placement:
  assumes d: "distinct (map (CanonicalMIMEHeaderKey lib) account_keys)"
    and r: "PutContainer_reqs lib c a co hs = Inr reqs"
  shows "list_all2 (\<lambda>req (i, device).
            Method req = ''PUT'' \<and>
            URL req = container_url lib device (GetPartition (ContainerRing c) a co '''') a co \<and>
            names_parent lib ''Account'' (AccountRing c)
              (GetPartition (AccountRing c) a '''' '''') i req)
          reqs
          (enumerate 0 (GetNodes (ContainerRing c) (GetPartition (ContainerRing c) a co '''')))"
  by (rule for_range_all[OF r[unfolded PutContainer_reqs_def Let_def]])
     (auto simp: err_ignored_def NewRequest_def names_parent_def
           split: option.splits sum.splits if_splits
           dest!: set_placement_Inr[OF _ account_keys_distinct[OF d]])

lemma DeleteContainer_reqs_placement:
  assumes d: "distinct (map (CanonicalMIMEHeaderKey lib) account_keys)"
    and r: "DeleteContainer_reqs lib c a co hs = Inr reqs"
  shows "list_all2 (\<lambda>req (i, device).
            Method req = ''DELETE'' \<and>
            URL req = container_url lib device (GetPartition (ContainerRing c) a co '''') a co \<and>
            names_parent lib ''Account'' (AccountRing c)
              (GetPartition (AccountRing c) a '''' '''') i req)
          reqs
          (enumerate 0 (GetNodes (ContainerRing c) (GetPartition (ContainerRing c) a co '''')))"
  by (rule for_range_all[OF r[unfolded DeleteContainer_reqs_def Let_def]])
     (auto simp: err_ignored_def NewRequest_def names_parent_def
           split: option.splits sum.splits if_splits
           dest!: set_placement_Inr[OF _ account_keys_distinct[OF d]])

lemma PostObject_reqs_placement:
  assumes d: "distinct (map (CanonicalMIMEHeaderKey lib) container_keys)"
    and r: "PostObject_reqs lib c a co ob hs = Inr reqs"
  shows "list_all2 (\<lambda>req (i, device).
            Method req = ''POST'' \<and>
            URL req = object_url lib device (GetPartition (ObjectRing c) a co ob) a co ob \<and>
            names_parent lib ''Container'' (ContainerRing c)
              (GetPartition (ContainerRing c) a co '''') i req)
          reqs
          (enumerate 0 (GetNodes (ObjectRing c) (GetPartition (ObjectRing c) a co ob)))"
  by (rule for_range_all[OF r[unfolded PostObject_reqs_def Let_def]])
     (auto simp: err_ignored_def NewRequest_def names_parent_def
           split: option.splits sum.splits if_splits
           dest!: set_placement_Inr[OF _ container_keys_distinct[OF d]])

lemma DeleteObject_reqs_placement:
  assumes d: "distinct (map (CanonicalMIMEHeaderKey lib) container_keys)"
    and r: "DeleteObject_reqs lib c a co ob hs = Inr reqs"
  shows "list_all2 (\<lambda>req (i, device).
            Method req = ''DELETE'' \<and>
            URL req = object_url lib device (GetPartition (ObjectRing c) a co ob) a co ob \<and>
            names_parent lib ''Container'' (ContainerRing c)
              (GetPartition (ContainerRing c) a co '''') i req)
          reqs
          (enumerate 0 (GetNodes (ObjectRing c) (GetPartition (ObjectRing c) a co ob)))"
  by (rule for_range_all[OF r[unfolded DeleteObject_reqs_def Let_def]])
     (auto simp: err_ignored_def NewRequest_def names_parent_def
           split: option.splits sum.splits if_splits
           dest!: set_placement_Inr[OF _ container_keys_distinct[OF d]])

text \<open>
  \<^verbatim>\<open>PutObject\<close> skips the devices whose URL does not parse; each request it builds
  belongs to the pipe and to the device of its own loop index.
\<close>

lemma PutObject_reqs_placement:
  assumes d: "distinct (map (CanonicalMIMEHeaderKey lib) container_keys)"
    and r: "PutObject_reqs lib c a co ob hs = Inr built"
  shows "list_all2 (\<lambda>(w, req) (i, device).
            w = i \<and> Request.Body req = Some i \<and> Method req = ''PUT'' \<and>
            URL req = object_url lib device (GetPartition (ObjectRing c) a co ob) a co ob \<and>
            names_parent lib ''Container'' (ContainerRing c)
              (GetPartition (ContainerRing c) a co '''') i req)
          built
          (filter (\<lambda>(i, device).
               url_Parse lib (object_url lib device (GetPartition (ObjectRing c) a co ob) a co ob))
             (enumerate 0 (GetNodes (ObjectRing c) (GetPartition (ObjectRing c) a co ob))))"
  by (rule for_range_filter[OF r[unfolded PutObject_reqs_def Let_def]])
     (auto simp: err_continue_def NewRequest_def names_parent_def
           split: option.splits sum.splits if_splits
           dest!: set_placement_Inr[OF _ container_keys_distinct[OF d]]
           intro!: carries_placement_Header_Set container_keys_Expect[OF d])

text \<open>
  C5. For every child-tier mutation (\<^verbatim>\<open>PutContainer\<close>, \<^verbatim>\<open>DeleteContainer\<close>,
  \<^verbatim>\<open>PutObject\<close>, \<^verbatim>\<open>PostObject\<close>, \<^verbatim>\<open>DeleteObject\<close>) whose requests get built, the requests
  are, in order, those of the child replicas (for \<^verbatim>\<open>PutObject\<close>: of the child replicas
  whose URL parses), and the request for child replica index \<open>i\<close> carries the three
  placement headers \<open>X-<Parent>-Partition\<close>, equal to the parent ring's partition for the
  path, \<open>X-<Parent>-Host\<close>, equal to \<open>ip:port\<close> of the parent device at the same index
  \<open>i\<close>, and \<open>X-<Parent>-Device\<close>, equal to the device name of that parent device;
  \<open><Parent>\<close> is \<open>Account\<close> for the container tier and \<open>Container\<close> for the object tier.
  The header keys that the operations set are in canonical form, so canonicalisation
  keeps them apart.
\<close>

theorem placement_headers_name_parent_at_same_index:
  assumes "distinct (map (CanonicalMIMEHeaderKey lib) account_keys)"
    and "distinct (map (CanonicalMIMEHeaderKey lib) container_keys)"
  shows "(\<forall>reqs. PutContainer_reqs lib c a co hs = Inr reqs \<longrightarrow>
      list_all2 (\<lambda>req (i, device).
          Method req = ''PUT'' \<and>
          URL req = container_url lib device (GetPartition (ContainerRing c) a co '''') a co \<and>
          names_parent lib ''Account'' (AccountRing c) (GetPartition (AccountRing c) a '''' '''')
            i req)
        reqs
        (enumerate 0 (GetNodes (ContainerRing c) (GetPartition (ContainerRing c) a co ''''))))
   \<and> (\<forall>reqs. DeleteContainer_reqs lib c a co hs = Inr reqs \<longrightarrow>
      list_all2 (\<lambda>req (i, device).
          Method req = ''DELETE'' \<and>
          URL req = container_url lib device (GetPartition (ContainerRing c) a co '''') a co \<and>
          names_parent lib ''Account'' (AccountRing c) (GetPartition (AccountRing c) a '''' '''')
            i req)
        reqs
        (enumerate 0 (GetNodes (ContainerRing c) (GetPartition (ContainerRing c) a co ''''))))
   \<and> (\<forall>built. PutObject_reqs lib c a co ob hs = Inr built \<longrightarrow>
      list_all2 (\<lambda>(w, req) (i, device).
          w = i \<and> Request.Body req = Some i \<and> Method req = ''PUT'' \<and>
          URL req = object_url lib device (GetPartition (ObjectRing c) a co ob) a co ob \<and>
          names_parent lib ''Container'' (ContainerRing c)
            (GetPartition (ContainerRing c) a co '''') i req)
        built
        (filter (\<lambda>(i, device).
             url_Parse lib (object_url lib device (GetPartition (ObjectRing c) a co ob) a co ob))
           (enumerate 0 (GetNodes (ObjectRing c) (GetPartition (ObjectRing c) a co ob)))))
   \<and> (\<forall>reqs. PostObject_reqs lib c a co ob hs = Inr reqs \<longrightarrow>
      list_all2 (\<lambda>req (i, device).
          Method req = ''POST'' \<and>
          URL req = object_url lib device (GetPartition (ObjectRing c) a co ob) a co ob \<and>
          names_parent lib ''Container'' (ContainerRing c)
            (GetPartition (ContainerRing c) a co '''') i req)
        reqs
        (enumerate 0 (GetNodes (ObjectRing c) (GetPartition (ObjectRing c) a co ob))))
   \<and> (\<forall>reqs. DeleteObject_reqs lib c a co ob hs = Inr reqs \<longrightarrow>
      list_all2 (\<lambda>req (i, device).
          Method req = ''DELETE'' \<and>
          URL req = object_url lib device (GetPartition (ObjectRing c) a co ob) a co ob \<and>
          names_parent lib ''Container'' (ContainerRing c)
            (GetPartition (ContainerRing c) a co '''') i req)
        reqs
        (enumerate 0 (GetNodes (ObjectRing c) (GetPartition (ObjectRing c) a co ob))))"
  using PutContainer_reqs_placement[OF assms(1)] DeleteContainer_reqs_placement[OF assms(1)] PutObject_reqs_placement[OF assms(2)] PostObject_reqs_placement[OF assms(2)] DeleteObject_reqs_placement[OF assms(2)]
  by (intro conjI allI impI)

theorem placement_headers_name_parent_at_same_index_witness:
  "distinct (map (CanonicalMIMEHeaderKey example_lib) account_keys)
   \<and> distinct (map (CanonicalMIMEHeaderKey example_lib) container_keys)
   \<and> (\<exists>reqs. PutContainer_reqs example_lib three_replicas ''a'' ''c'' [(''X-Trans-Id'', [''tx1''])] = Inr reqs \<and> length reqs = 3 \<and>
      list_all2 (\<lambda>req (i, device).
          Method req = ''PUT'' \<and>
          URL req = container_url example_lib device (GetPartition (ContainerRing three_replicas) ''a'' ''c'' '''') ''a'' ''c'' \<and>
          names_parent example_lib ''Account'' (AccountRing three_replicas) (GetPartition (AccountRing three_replicas) ''a'' '''' '''')
            i req)
        reqs
        (enumerate 0 (GetNodes (ContainerRing three_replicas) (GetPartition (ContainerRing three_replicas) ''a'' ''c'' ''''))))
   \<and> (\<exists>reqs. DeleteContainer_reqs example_lib three_replicas ''a'' ''c'' [(''X-Trans-Id'', [''tx1''])] = Inr reqs \<and> length reqs = 3 \<and>
      list_all2 (\<lambda>req (i, device).
          Method req = ''DELETE'' \<and>
          URL req = container_url example_lib device (GetPartition (ContainerRing three_replicas) ''a'' ''c'' '''') ''a'' ''c'' \<and>
          names_parent example_lib ''Account'' (AccountRing three_replicas) (GetPartition (AccountRing three_replicas) ''a'' '''' '''')
            i req)
        reqs
        (enumerate 0 (GetNodes (ContainerRing three_replicas) (GetPartition (ContainerRing three_replicas) ''a'' ''c'' ''''))))
   \<and> (\<exists>built. PutObject_reqs example_lib three_replicas ''a'' ''c'' ''o'' [(''X-Trans-Id'', [''tx1''])] = Inr built \<and> length built = 3 \<and>
      list_all2 (\<lambda>(w, req) (i, device).
          w = i \<and> Request.Body req = Some i \<and> Method req = ''PUT'' \<and>
          URL req = object_url example_lib device (GetPartition (ObjectRing three_replicas) ''a'' ''c'' ''o'') ''a'' ''c'' ''o'' \<and>
          names_parent example_lib ''Container'' (ContainerRing three_replicas)
            (GetPartition (ContainerRing three_replicas) ''a'' ''c'' '''') i req)
        built
        (filter (\<lambda>(i, device).
             url_Parse example_lib (object_url example_lib device (GetPartition (ObjectRing three_replicas) ''a'' ''c'' ''o'') ''a'' ''c'' ''o''))
           (enumerate 0 (GetNodes (ObjectRing three_replicas) (GetPartition (ObjectRing three_replicas) ''a'' ''c'' ''o'')))))
   \<and> (\<exists>reqs. PostObject_reqs example_lib three_replicas ''a'' ''c'' ''o'' [(''X-Trans-Id'', [''tx1''])] = Inr reqs \<and> length reqs = 3 \<and>
      list_all2 (\<lambda>req (i, device).
          Method req = ''POST'' \<and>
          URL req = object_url example_lib device (GetPartition (ObjectRing three_replicas) ''a'' ''c'' ''o'') ''a'' ''c'' ''o'' \<and>
          names_parent example_lib ''Container'' (ContainerRing three_replicas)
            (GetPartition (ContainerRing three_replicas) ''a'' ''c'' '''') i req)
        reqs
        (enumerate 0 (GetNodes (ObjectRing three_replicas) (GetPartition (ObjectRing three_replicas) ''a'' ''c'' ''o''))))
   \<and> (\<exists>reqs. DeleteObject_reqs example_lib three_replicas ''a'' ''c'' ''o'' [(''X-Trans-Id'', [''tx1''])] = Inr reqs \<and> length reqs = 3 \<and>
      list_all2 (\<lambda>req (i, device).
          Method req = ''DELETE'' \<and>
          URL req = object_url example_lib device (GetPartition (ObjectRing three_replicas) ''a'' ''c'' ''o'') ''a'' ''c'' ''o'' \<and>
          names_parent example_lib ''Container'' (ContainerRing three_replicas)
            (GetPartition (ContainerRing three_replicas) ''a'' ''c'' '''') i req)
        reqs
        (enumerate 0 (GetNodes (ObjectRing three_replicas) (GetPartition (ObjectRing three_replicas) ''a'' ''c'' ''o''))))"
proof -
  have d1: "distinct (map (CanonicalMIMEHeaderKey example_lib) account_keys)"
    by (simp add: example_lib_def account_keys_def)
  have d2: "distinct (map (CanonicalMIMEHeaderKey example_lib) container_keys)"
    by (simp add: example_lib_def container_keys_def object_keys_def)
  note T = placement_headers_name_parent_at_same_index
    [OF d1 d2, where c = "three_replicas"
       and a = "''a''" and co = "''c''" and ob = "''o''" and hs = "[(''X-Trans-Id'', [''tx1''])]"]
  have "\<exists>reqs. PutContainer_reqs example_lib three_replicas ''a'' ''c'' [(''X-Trans-Id'', [''tx1''])] = Inr reqs \<and> length reqs = 3"
    by (simp add: PutContainer_reqs_def example_defs three_replicas_def three_nodes_def request_defs Let_def)
  then obtain reqs0 where r0: "PutContainer_reqs example_lib three_replicas ''a'' ''c'' [(''X-Trans-Id'', [''tx1''])] = Inr reqs0"
    and l0: "length reqs0 = 3"
    by blast
  from T[THEN conjunct1, rule_format, OF r0] r0 l0
  have c0: "(\<exists>reqs. PutContainer_reqs example_lib three_replicas ''a'' ''c'' [(''X-Trans-Id'', [''tx1''])] = Inr reqs \<and> length reqs = 3 \<and>
      list_all2 (\<lambda>req (i, device).
          Method req = ''PUT'' \<and>
          URL req = container_url example_lib device (GetPartition (ContainerRing three_replicas) ''a'' ''c'' '''') ''a'' ''c'' \<and>
          names_parent example_lib ''Account'' (AccountRing three_replicas) (GetPartition (AccountRing three_replicas) ''a'' '''' '''')
            i req)
        reqs
        (enumerate 0 (GetNodes (ContainerRing three_replicas) (GetPartition (ContainerRing three_replicas) ''a'' ''c'' ''''))))"
    by blast
  have "\<exists>reqs. DeleteContainer_reqs example_lib three_replicas ''a'' ''c'' [(''X-Trans-Id'', [''tx1''])] = Inr reqs \<and> length reqs = 3"
    by (simp add: DeleteContainer_reqs_def example_defs three_replicas_def three_nodes_def request_defs Let_def)
  then obtain reqs1 where r1: "DeleteContainer_reqs example_lib three_replicas ''a'' ''c'' [(''X-Trans-Id'', [''tx1''])] = Inr reqs1"
    and l1: "length reqs1 = 3"
    by blast
  from T[THEN conjunct2, THEN conjunct1, rule_format, OF r1] r1 l1
  have c1: "(\<exists>reqs. DeleteContainer_reqs example_lib three_replicas ''a'' ''c'' [(''X-Trans-Id'', [''tx1''])] = Inr reqs \<and> length reqs = 3 \<and>
      list_all2 (\<lambda>req (i, device).
          Method req = ''DELETE'' \<and>
          URL req = container_url example_lib device (GetPartition (ContainerRing three_replicas) ''a'' ''c'' '''') ''a'' ''c'' \<and>
          names_parent example_lib ''Account'' (AccountRing three_replicas) (GetPartition (AccountRing three_replicas) ''a'' '''' '''')
            i req)
        reqs
        (enumerate 0 (GetNodes (ContainerRing three_replicas) (GetPartition (ContainerRing three_replicas) ''a'' ''c'' ''''))))"
    by blast
  have "\<exists>built. PutObject_reqs example_lib three_replicas ''a'' ''c'' ''o'' [(''X-Trans-Id'', [''tx1''])] = Inr built \<and> length built = 3"
    by (simp add: PutObject_reqs_def example_defs three_replicas_def three_nodes_def request_defs Let_def)
  then obtain built2 where r2: "PutObject_reqs example_lib three_replicas ''a'' ''c'' ''o'' [(''X-Trans-Id'', [''tx1''])] = Inr built2"
    and l2: "length built2 = 3"
    by blast
  from T[THEN conjunct2, THEN conjunct2, THEN conjunct1, rule_format, OF r2] r2 l2
  have c2: "(\<exists>built. PutObject_reqs example_lib three_replicas ''a'' ''c'' ''o'' [(''X-Trans-Id'', [''tx1''])] = Inr built \<and> length built = 3 \<and>
      list_all2 (\<lambda>(w, req) (i, device).
          w = i \<and> Request.Body req = Some i \<and> Method req = ''PUT'' \<and>
          URL req = object_url example_lib device (GetPartition (ObjectRing three_replicas) ''a'' ''c'' ''o'') ''a'' ''c'' ''o'' \<and>
          names_parent example_lib ''Container'' (ContainerRing three_replicas)
            (GetPartition (ContainerRing three_replicas) ''a'' ''c'' '''') i req)
        built
        (filter (\<lambda>(i, device).
             url_Parse example_lib (object_url example_lib device (GetPartition (ObjectRing three_replicas) ''a'' ''c'' ''o'') ''a'' ''c'' ''o''))
           (enumerate 0 (GetNodes (ObjectRing three_replicas) (GetPartition (ObjectRing three_replicas) ''a'' ''c'' ''o'')))))"
    by blast
  have "\<exists>reqs. PostObject_reqs example_lib three_replicas ''a'' ''c'' ''o'' [(''X-Trans-Id'', [''tx1''])] = Inr reqs \<and> length reqs = 3"
    by (simp add: PostObject_reqs_def example_defs three_replicas_def three_nodes_def request_defs Let_def)
  then obtain reqs3 where r3: "PostObject_reqs example_lib three_replicas ''a'' ''c'' ''o'' [(''X-Trans-Id'', [''tx1''])] = Inr reqs3"
    and l3: "length reqs3 = 3"
    by blast
  from T[THEN conjunct2, THEN conjunct2, THEN conjunct2, THEN conjunct1, rule_format, OF r3] r3 l3
  have c3: "(\<exists>reqs. PostObject_reqs example_lib three_replicas ''a'' ''c'' ''o'' [(''X-Trans-Id'', [''tx1''])] = Inr reqs \<and> length reqs = 3 \<and>
      list_all2 (\<lambda>req (i, device).
          Method req = ''POST'' \<and>
          URL req = object_url example_lib device (GetPartition (ObjectRing three_replicas) ''a'' ''c'' ''o'') ''a'' ''c'' ''o'' \<and>
          names_parent example_lib ''Container'' (ContainerRing three_replicas)
            (GetPartition (ContainerRing three_replicas) ''a'' ''c'' '''') i req)
        reqs
        (enumerate 0 (GetNodes (ObjectRing three_replicas) (GetPartition (ObjectRing three_replicas) ''a'' ''c'' ''o''))))"
    by blast
  have "\<exists>reqs. DeleteObject_reqs example_lib three_replicas ''a'' ''c'' ''o'' [(''X-Trans-Id'', [''tx1''])] = Inr reqs \<and> length reqs = 3"
    by (simp add: DeleteObject_reqs_def example_defs three_replicas_def three_nodes_def request_defs Let_def)
  then obtain reqs4 where r4: "DeleteObject_reqs example_lib three_replicas ''a'' ''c'' ''o'' [(''X-Trans-Id'', [''tx1''])] = Inr reqs4"
    and l4: "length reqs4 = 3"
    by blast
  from T[THEN conjunct2, THEN conjunct2, THEN conjunct2, THEN conjunct2, rule_format, OF r4] r4 l4
  have c4: "(\<exists>reqs. DeleteObject_reqs example_lib three_replicas ''a'' ''c'' ''o'' [(''X-Trans-Id'', [''tx1''])] = Inr reqs \<and> length reqs = 3 \<and>
      list_all2 (\<lambda>req (i, device).
          Method req = ''DELETE'' \<and>
          URL req = object_url example_lib device (GetPartition (ObjectRing three_replicas) ''a'' ''c'' ''o'') ''a'' ''c'' ''o'' \<and>
          names_parent example_lib ''Container'' (ContainerRing three_replicas)
            (GetPartition (ContainerRing three_replicas) ''a'' ''c'' '''') i req)
        reqs
        (enumerate 0 (GetNodes (ObjectRing three_replicas) (GetPartition (ObjectRing three_replicas) ''a'' ''c'' ''o''))))"
    by blast
  from d1 d2 c0 c1 c2 c3 c4 show ?thesis by (intro conjI)
qed

text \<open>
  The requests of \<^verbatim>\<open>PutContainer\<close> on three replicas, written out: the caller's header
  and, for replica \<open>i\<close>, the account device at index \<open>i\<close>.
\<close>

lemma PutContainer_reqs_example:
  "PutContainer_reqs example_lib three_replicas ''a'' ''c'' [(''X-Trans-Id'', [''tx1''])] =
     Inr [\<lparr>Method = ''PUT'', URL = ''http://127.0.0.1:6010/sdb1/7/a/c'',
            Header = [(''X-Trans-Id'', [''tx1'']), (''X-Account-Partition'', [''7'']),
                      (''X-Account-Host'', [''127.0.0.1:6010'']),
                      (''X-Account-Device'', [''sdb1''])],
            Body = None\<rparr>,
          \<lparr>Method = ''PUT'', URL = ''http://127.0.0.1:6010/sdb2/7/a/c'',
            Header = [(''X-Trans-Id'', [''tx1'']), (''X-Account-Partition'', [''7'']),
                      (''X-Account-Host'', [''127.0.0.1:6010'']),
                      (''X-Account-Device'', [''sdb2''])],
            Body = None\<rparr>,
          \<lparr>Method = ''PUT'', URL = ''http://127.0.0.1:6010/sdb3/7/a/c'',
            Header = [(''X-Trans-Id'', [''tx1'']), (''X-Account-Partition'', [''7'']),
                      (''X-Account-Host'', [''127.0.0.1:6010'']),
                      (''X-Account-Device'', [''sdb3''])],
            Body = None\<rparr>]"
  by (simp add: PutContainer_reqs_def example_defs three_replicas_def three_nodes_def
        request_defs Let_def)

text \<open>
  The index of the child replica is used on the parent's device list without a check:
  with three container replicas and two account replicas the loop panics, and no request
  is sent.
\<close>

lemma PutContainer_short_parent_panics:
  "PutContainer example_lib (example_client [''sdb1'', ''sdb2''] three_nodes three_nodes)
     ''a'' ''c'' [] [Some (reply 201), Some (reply 201), Some (reply 201)]
   = Panics IndexOutOfRange"
  by (simp add: PutContainer_def PutContainer_reqs_def example_defs three_nodes_def
        request_defs Let_def)

subsection \<open>The caller's headers\<close>


































section \<open>Properties of the streaming PUT\<close>

lemma set_placement_fields:
  "set_placement lib parent pp pds i req = Inr req' \<Longrightarrow>
   Method req' = Method req \<and> URL req' = URL req \<and> Request.Body req' = Request.Body req"
  by (auto simp: set_placement_def Let_def split: if_splits)

lemma PutObject_reqs_constructed:
  assumes r: "PutObject_reqs lib c a co ob hs = Inr built"
  shows "list_all2 (\<lambda>(w, req) (i, device).
            w = i \<and> Request.Body req = Some i \<and> Method req = ''PUT'' \<and>
            URL req = object_url lib device (GetPartition (ObjectRing c) a co ob) a co ob)
          built
          (filter (\<lambda>(i, device).
               url_Parse lib (object_url lib device (GetPartition (ObjectRing c) a co ob) a co ob))
             (enumerate 0 (GetNodes (ObjectRing c) (GetPartition (ObjectRing c) a co ob))))"
  by (rule for_range_filter[OF r[unfolded PutObject_reqs_def Let_def]])
     (auto simp: err_continue_def NewRequest_def
           split: option.splits sum.splits if_splits
           dest!: set_placement_fields)

lemma list_all2_fst_eq:
  "list_all2 (\<lambda>(w, req) (i, device). w = i \<and> P req i device) built ps \<Longrightarrow>
   map fst built = map fst ps"
  by (induction built ps rule: list_all2_induct) auto

lemma count_list_map_CloseWriter:
  "count_list (map CloseWriter ws) (CloseWriter i) = count_list ws i"
  by (induction ws) auto

lemma count_list_distinct: "distinct ws \<Longrightarrow> count_list ws i = (if i \<in> set ws then 1 else 0)"
  by (induction ws) auto

lemma count_list_deferred_closes:
  "count_list (deferred_closes n) (CloseWriter i) = (if i < n then 1 else 0)"
  by (induction n) (auto simp: deferred_closes_def)

lemma map_fst_filter: "map fst (filter (\<lambda>p. P (fst p)) zs) = filter P (map fst zs)"
  by (induction zs) auto

lemma writers_of_enumerate:
  "map fst (filter (\<lambda>(i, d). ok i d) (enumerate 0 xs))
     = filter (\<lambda>i. ok i (xs ! i)) [0..<length xs]"
proof -
  have "filter (\<lambda>(i, d). ok i d) (enumerate 0 xs)
      = filter (\<lambda>p. ok (fst p) (xs ! fst p)) (enumerate 0 xs)"
    by (rule filter_cong) (auto simp: in_set_enumerate_eq)
  then show ?thesis
    by (simp add: map_fst_filter[where P = "\<lambda>i. ok i (xs ! i)"])
qed

text \<open>
  The write ends collected in \<^verbatim>\<open>writers\<close> are those of the pipes whose request could be
  built, in the order of the devices.
\<close>

lemma PutObject_writers:
  assumes r: "PutObject_reqs lib c a co ob hs = Inr built"
  shows "map fst built = filter (\<lambda>i. url_Parse lib (object_url lib
            (GetNodes (ObjectRing c) (GetPartition (ObjectRing c) a co ob) ! i)
            (GetPartition (ObjectRing c) a co ob) a co ob))
          [0..<length (GetNodes (ObjectRing c) (GetPartition (ObjectRing c) a co ob))]"
proof -
  have "map fst built = map fst (filter (\<lambda>(i, device).
               url_Parse lib (object_url lib device (GetPartition (ObjectRing c) a co ob) a co ob))
             (enumerate 0 (GetNodes (ObjectRing c) (GetPartition (ObjectRing c) a co ob))))"
    by (rule list_all2_fst_eq[OF PutObject_reqs_constructed[OF r]])
  then show ?thesis by (simp only: writers_of_enumerate)
qed

lemmas PutObject_example_defs =
  PutObject_def PutObject_reqs_def example_defs request_defs copy_goroutine_def Let_def
  three_replicas_def three_nodes_def five_nodes_def five_nodes_one_bad_def
  five_replicas_one_bad_def quorumResponse_def quorum_of_div go_div_def


lemma PutObject_run_three:
  assumes "PutObject_reqs lib c a co ob hs = Inr built" and "3 \<le> length built"
  shows "PutObject lib c a co ob hs arrivals
           = Inr \<lparr>returned = quorumResponse (map snd built) arrivals,
                  copying = Inr (Copy [map fst built ! 0, map fst built ! 1, map fst built ! 2]
                                   # map CloseWriter (map fst built)),
                  deferred = (case quorumResponse (map snd built) arrivals of
                                BlocksForever \<Rightarrow> []
                              | _ \<Rightarrow> deferred_closes
                                      (length (GetNodes (ObjectRing c)
                                                 (GetPartition (ObjectRing c) a co ob))))\<rparr>"
  using assms by (auto simp: PutObject_def copy_goroutine_def Let_def)




text \<open>
  C6. The copying goroutine is meant to feed every pipe that was constructed. It indexes
  \<^verbatim>\<open>writers\<close> at 0, 1 and 2 whatever its length: with an object ring of two replicas the
  access \<^verbatim>\<open>writers[2]\<close> is out of range and the goroutine panics, and with four replicas
  the fourth pipe is closed without ever being fed.
\<close>

theorem PutObject_copy_assumes_three_pipes:
  "map_sum id copying
      (PutObject example_lib (example_client [] [''sdb1'', ''sdb2''] [''sdb1'', ''sdb2''])
         ''a'' ''c'' ''o'' [] [Some (reply 201)])
     = Inr (Inl IndexOutOfRange)
   \<and> map_sum id copying
      (PutObject example_lib (example_client [] four_nodes four_nodes)
         ''a'' ''c'' ''o'' [] [Some (reply 201), Some (reply 201)])
     = Inr (Inr [Copy [0, 1, 2], CloseWriter 0, CloseWriter 1, CloseWriter 2, CloseWriter 3])"
  by (simp add: PutObject_example_defs four_nodes_def)

text \<open>
  C7 (as amended). In a run of \<^verbatim>\<open>PutObject\<close> in which the dispatcher returns and the
  copying goroutine does not panic, \<^verbatim>\<open>Close\<close> is called on the write end of every pipe:
  once by the deferred call that runs when \<^verbatim>\<open>PutObject\<close> returns, whether or not the
  source is exhausted by then, and, for a pipe whose request was constructed, a second
  time by the copying goroutine, after \<^verbatim>\<open>io.Copy\<close> has returned because the source is
  exhausted or a read or write failed. So a constructed pipe's write end sees two calls
  of \<^verbatim>\<open>Close\<close> and a skipped pipe's write end sees one.
\<close>

theorem PutObject_close_calls:
  assumes "PutObject lib c a co ob hs arrivals = Inr run"
    and "returned run \<noteq> BlocksForever"
    and "copying run = Inr events"
    and "i < length (GetNodes (ObjectRing c) (GetPartition (ObjectRing c) a co ob))"
  shows "close_calls i run =
           (if url_Parse lib (object_url lib
                 (GetNodes (ObjectRing c) (GetPartition (ObjectRing c) a co ob) ! i)
                 (GetPartition (ObjectRing c) a co ob) a co ob)
            then 2 else 1)
         \<and> (\<exists>built. PutObject_reqs lib c a co ob hs = Inr built \<and> 3 \<le> length built \<and>
               events = Copy [map fst built ! 0, map fst built ! 1, map fst built ! 2]
                          # map CloseWriter (map fst built))
         \<and> deferred run =
               deferred_closes
                 (length (GetNodes (ObjectRing c) (GetPartition (ObjectRing c) a co ob)))"
proof -
  let ?n = "length (GetNodes (ObjectRing c) (GetPartition (ObjectRing c) a co ob))"
  from assms(1) obtain built where b: "PutObject_reqs lib c a co ob hs = Inr built"
    by (auto simp: PutObject_def split: sum.splits)
  from assms(1) assms(3) b have len: "3 \<le> length built"
    by (auto simp: PutObject_def Let_def copy_goroutine_def split: if_splits)
  from assms(1) have run: "run = \<lparr>returned = quorumResponse (map snd built) arrivals,
                  copying = Inr (Copy [map fst built ! 0, map fst built ! 1, map fst built ! 2]
                                   # map CloseWriter (map fst built)),
                  deferred = (case quorumResponse (map snd built) arrivals of
                     BlocksForever \<Rightarrow> [] | _ \<Rightarrow> deferred_closes ?n)\<rparr>"
    by (simp add: PutObject_run_three[OF b len])
  with assms(2) have d: "deferred run = deferred_closes ?n"
    by (auto split: result.splits)
  from run assms(3) have
    ev: "events = Copy [map fst built ! 0, map fst built ! 1, map fst built ! 2]
                      # map CloseWriter (map fst built)"
    by simp
  have w: "map fst built = filter (\<lambda>i. url_Parse lib (object_url lib
            (GetNodes (ObjectRing c) (GetPartition (ObjectRing c) a co ob) ! i)
            (GetPartition (ObjectRing c) a co ob) a co ob)) [0..<?n]"
    by (rule PutObject_writers[OF b])
  then have dist: "distinct (map fst built)" by simp
  have "close_calls i run
      = count_list (map fst built) i + count_list (deferred_closes ?n) (CloseWriter i)"
  proof -
    have "close_calls i run = count_list (map CloseWriter (map fst built)) (CloseWriter i)
        + count_list (deferred_closes ?n) (CloseWriter i)"
      unfolding close_calls_def assms(3) ev d by simp
    then show ?thesis by (simp only: count_list_map_CloseWriter)
  qed
  also have "\<dots> = (if i \<in> set (map fst built) then 1 else 0) + 1"
    using assms(4) by (simp only: count_list_distinct[OF dist] count_list_deferred_closes if_True)
  finally have calls: "close_calls i run =
           (if url_Parse lib (object_url lib
                 (GetNodes (ObjectRing c) (GetPartition (ObjectRing c) a co ob) ! i)
                 (GetPartition (ObjectRing c) a co ob) a co ob)
            then 2 else 1)"
    using assms(4) by (simp add: w)
  from b len ev have "\<exists>built. PutObject_reqs lib c a co ob hs = Inr built \<and> 3 \<le> length built \<and>
           events = Copy [map fst built ! 0, map fst built ! 1, map fst built ! 2]
                      # map CloseWriter (map fst built)"
    by blast
  with calls d show ?thesis by (intro conjI)
qed

theorem PutObject_close_calls_witness:
  "\<exists>run. PutObject example_lib five_replicas_one_bad ''a'' ''c'' ''o'' []
            [Some (reply 201), Some (reply 201), None, None] = Inr run
     \<and> returned run \<noteq> BlocksForever
     \<and> copying run = Inr [Copy [0, 2, 3], CloseWriter 0, CloseWriter 2, CloseWriter 3,
                           CloseWriter 4]
     \<and> (1::nat) < length (GetNodes (ObjectRing five_replicas_one_bad)
                    (GetPartition (ObjectRing five_replicas_one_bad) ''a'' ''c'' ''o''))
     \<and> close_calls 0 run = 2
     \<and> close_calls 1 run = 1"
proof -
  let ?events = "[Copy [0, 2, 3], CloseWriter 0, CloseWriter 2, CloseWriter 3, CloseWriter 4]"
  have "\<exists>run. PutObject example_lib five_replicas_one_bad ''a'' ''c'' ''o'' []
            [Some (reply 201), Some (reply 201), None, None] = Inr run
     \<and> returned run \<noteq> BlocksForever \<and> copying run = Inr ?events"
    by (simp add: PutObject_example_defs)
  then obtain run where
    r: "PutObject example_lib five_replicas_one_bad ''a'' ''c'' ''o'' []
            [Some (reply 201), Some (reply 201), None, None] = Inr run"
    and ret: "returned run \<noteq> BlocksForever"
    and cp: "copying run = Inr ?events"
    by (elim exE conjE)
  have n0: "(0::nat) < length (GetNodes (ObjectRing five_replicas_one_bad)
                    (GetPartition (ObjectRing five_replicas_one_bad) ''a'' ''c'' ''o''))"
    and n1: "(1::nat) < length (GetNodes (ObjectRing five_replicas_one_bad)
                    (GetPartition (ObjectRing five_replicas_one_bad) ''a'' ''c'' ''o''))"
    by (simp_all add: PutObject_example_defs)
  from PutObject_close_calls[OF r ret cp n0]
  have c0: "close_calls 0 run = 2"
    by (simp add: PutObject_example_defs)
  from PutObject_close_calls[OF r ret cp n1]
  have c1: "close_calls 1 run = 1"
    by (simp add: PutObject_example_defs)
  from r ret cp n1 c0 c1 show ?thesis by (intro exI[of _ run] conjI)
qed

text \<open>
  C7 as the specification words it fails: with three replicas, all requests constructed
  and the dispatcher returning 201, \<^verbatim>\<open>Close\<close> is called twice on the write end of the
  first pipe, by the copying goroutine and by the deferred call.
\<close>

theorem PutObject_write_end_closed_twice:
  "map_sum id returned
      (PutObject example_lib three_replicas ''a'' ''c'' ''o'' []
         [Some (reply 201), Some (reply 201), Some (reply 201)])
     = Inr (Returns 201)
   \<and> map_sum id copying
      (PutObject example_lib three_replicas ''a'' ''c'' ''o'' []
         [Some (reply 201), Some (reply 201), Some (reply 201)])
     = Inr (Inr [Copy [0, 1, 2], CloseWriter 0, CloseWriter 1, CloseWriter 2])
   \<and> map_sum id deferred
      (PutObject example_lib three_replicas ''a'' ''c'' ''o'' []
         [Some (reply 201), Some (reply 201), Some (reply 201)])
     = Inr [CloseReader 2, CloseWriter 2, CloseReader 1, CloseWriter 1,
            CloseReader 0, CloseWriter 0]
   \<and> map_sum id (close_calls 0)
      (PutObject example_lib three_replicas ''a'' ''c'' ''o'' []
         [Some (reply 201), Some (reply 201), Some (reply 201)])
     = Inr 2"
proof -
  have d3: "deferred_closes (Suc (Suc (Suc 0)))
      = [CloseReader 2, CloseWriter 2, CloseReader 1, CloseWriter 1,
         CloseReader 0, CloseWriter 0]"
    by (simp add: deferred_closes_def numeral_2_eq_2)
  show ?thesis
    by (simp add: PutObject_example_defs close_calls_def count_list_deferred_closes d3)
qed

section \<open>The quorum-based operations on an empty replica list\<close>

lemma quorumResponse_Nil: "quorumResponse [] [] = BlocksForever"
  by (simp add: quorumResponse_def)

text \<open>
  C10. The dispatcher returns a status only when it was given at least one sub-request.
  With an empty request list the threshold is 0, no goroutine exists to send a status,
  and the dispatcher blocks for ever. So no quorum-based operation returns a status when
  its ring returns no device for the partition, and the operations rely on the ring
  returning at least one: eight of them block for ever in the dispatcher, and in
  \<^verbatim>\<open>PutObject\<close> the copying goroutine indexes the empty \<^verbatim>\<open>writers\<close> and its panic ends
  the process while the dispatcher is blocked.
\<close>

theorem quorumResponse_needs_request:
  "quorum_of 0 = 0
   \<and> quorumResponse ([] :: Request list) [] = BlocksForever
   \<and> (\<forall>(reqs :: Request list) arrivals s.
         length arrivals = length reqs \<and> quorumResponse reqs arrivals = Returns s
         \<longrightarrow> reqs \<noteq> [])
   \<and> (GetNodes (AccountRing c) (GetPartition (AccountRing c) a '''' '''') = [] \<longrightarrow>
         PutAccount lib c a hs [] = BlocksForever
         \<and> PostAccount lib c a hs [] = BlocksForever
         \<and> DeleteAccount lib c a hs [] = BlocksForever)
   \<and> (GetNodes (ContainerRing c) (GetPartition (ContainerRing c) a co '''') = [] \<longrightarrow>
         PutContainer lib c a co hs [] = BlocksForever
         \<and> PostContainer lib c a co hs [] = BlocksForever
         \<and> DeleteContainer lib c a co hs [] = BlocksForever)
   \<and> (GetNodes (ObjectRing c) (GetPartition (ObjectRing c) a co ob) = [] \<longrightarrow>
         map_sum id returned (PutObject lib c a co ob hs []) = Inr (Panics IndexOutOfRange)
         \<and> map_sum id copying (PutObject lib c a co ob hs []) = Inr (Inl IndexOutOfRange)
         \<and> PostObject lib c a co ob hs [] = BlocksForever
         \<and> DeleteObject lib c a co ob hs [] = BlocksForever)"
proof (intro conjI impI allI)
  show "quorum_of 0 = 0" by (simp add: quorum_of_div)
  show "quorumResponse ([] :: Request list) [] = BlocksForever" by (rule quorumResponse_Nil)
  show "reqs \<noteq> []"
    if "length arrivals = length reqs \<and> quorumResponse reqs arrivals = Returns s"
    for reqs :: "Request list" and arrivals s
    using that by (auto simp: quorumResponse_def)
next
  assume "GetNodes (AccountRing c) (GetPartition (AccountRing c) a '''' '''') = []"
  then show "PutAccount lib c a hs [] = BlocksForever"
    and "PostAccount lib c a hs [] = BlocksForever"
    and "DeleteAccount lib c a hs [] = BlocksForever"
    by (simp_all add: PutAccount_def PutAccount_reqs_def PostAccount_def PostAccount_reqs_def
          DeleteAccount_def DeleteAccount_reqs_def quorum_dispatch_def quorumResponse_Nil)
next
  assume "GetNodes (ContainerRing c) (GetPartition (ContainerRing c) a co '''') = []"
  then show "PutContainer lib c a co hs [] = BlocksForever"
    and "PostContainer lib c a co hs [] = BlocksForever"
    and "DeleteContainer lib c a co hs [] = BlocksForever"
    by (simp_all add: PutContainer_def PutContainer_reqs_def PostContainer_def
          PostContainer_reqs_def DeleteContainer_def DeleteContainer_reqs_def
          quorum_dispatch_def quorumResponse_Nil)
next
  assume "GetNodes (ObjectRing c) (GetPartition (ObjectRing c) a co ob) = []"
  then show "map_sum id returned (PutObject lib c a co ob hs []) = Inr (Panics IndexOutOfRange)"
    and "map_sum id copying (PutObject lib c a co ob hs []) = Inr (Inl IndexOutOfRange)"
    and "PostObject lib c a co ob hs [] = BlocksForever"
    and "DeleteObject lib c a co ob hs [] = BlocksForever"
    by (simp_all add: PutObject_def PutObject_reqs_def copy_goroutine_def PostObject_def
          PostObject_reqs_def DeleteObject_def DeleteObject_reqs_def quorumResponse_Nil)
qed

theorem quorumResponse_needs_request_witness:
  "length [Some (reply 201)] = length [example_request]
   \<and> quorumResponse [example_request] [Some (reply 201)] = Returns 201
   \<and> [example_request] \<noteq> []
   \<and> GetNodes (AccountRing (example_client [] [] []))
         (GetPartition (AccountRing (example_client [] [] [])) ''a'' '''' '''') = []
   \<and> GetNodes (ContainerRing (example_client [] [] []))
         (GetPartition (ContainerRing (example_client [] [] [])) ''a'' ''c'' '''') = []
   \<and> GetNodes (ObjectRing (example_client [] [] []))
         (GetPartition (ObjectRing (example_client [] [] [])) ''a'' ''c'' ''o'') = []
   \<and> PutAccount example_lib (example_client [] [] []) ''a'' [] [] = BlocksForever
   \<and> PutContainer example_lib (example_client [] [] []) ''a'' ''c'' [] [] = BlocksForever
   \<and> map_sum id returned (PutObject example_lib (example_client [] [] []) ''a'' ''c'' ''o'' [] [])
       = Inr (Panics IndexOutOfRange)
   \<and> PostObject example_lib (example_client [] [] []) ''a'' ''c'' ''o'' [] [] = BlocksForever"
proof -
  have r: "quorumResponse [example_request] [Some (reply 201)] = Returns 201"
    by (simp add: quorumResponse_def quorum_of_div go_div_def reply_def)
  have e: "GetNodes (AccountRing (example_client [] [] []))
         (GetPartition (AccountRing (example_client [] [] [])) ''a'' '''' '''') = []"
    "GetNodes (ContainerRing (example_client [] [] []))
         (GetPartition (ContainerRing (example_client [] [] [])) ''a'' ''c'' '''') = []"
    "GetNodes (ObjectRing (example_client [] [] []))
         (GetPartition (ObjectRing (example_client [] [] [])) ''a'' ''c'' ''o'') = []"
    by (simp_all add: example_client_def example_ring_def)
  from quorumResponse_needs_request
         [where c = "example_client [] [] []" and lib = example_lib and a = "''a''"
            and co = "''c''" and ob = "''o''" and hs = "[]"]
       r e
  show ?thesis by simp
qed


end
